theory Spec2Isabelle
  imports Complex_Main
begin

section \<open>JavaScript numbers\<close>

text \<open>
  Every quantity of \<^verbatim>\<open>idw.js\<close> is a JavaScript number: a binary64 value of IEEE 754.
  A number is modelled as a real or one of the three special values \<open>Infinity\<close>,
  \<open>-Infinity\<close> and \<open>NaN\<close>. The operations below give the exact result; the engine
  then rounds a finite result to a representable value, and that rounding \<open>fl\<close> is a
  parameter of every function that computes: \<open>Fin\<close> itself is arithmetic without
  rounding, \<open>binary64\<close> (defined further down) is the arithmetic of the engine. The sign
  of zero is not modelled (every zero is \<open>+0\<close>).
\<close>

datatype jsnum = Fin real | PInf | NInf | NaN

type_synonym rounding = "real \<Rightarrow> jsnum"

fun js_round :: "rounding \<Rightarrow> jsnum \<Rightarrow> jsnum" where
  "js_round fl (Fin a) = fl a"
| "js_round fl PInf = PInf"
| "js_round fl NInf = NInf"
| "js_round fl NaN = NaN"

fun js_neg :: "jsnum \<Rightarrow> jsnum" where
  "js_neg (Fin a) = Fin (- a)"
| "js_neg PInf = NInf"
| "js_neg NInf = PInf"
| "js_neg NaN = NaN"

fun exact_add :: "jsnum \<Rightarrow> jsnum \<Rightarrow> jsnum" where
  "exact_add (Fin a) (Fin b) = Fin (a + b)"
| "exact_add (Fin a) PInf = PInf"
| "exact_add (Fin a) NInf = NInf"
| "exact_add PInf (Fin b) = PInf"
| "exact_add NInf (Fin b) = NInf"
| "exact_add PInf PInf = PInf"
| "exact_add NInf NInf = NInf"
| "exact_add PInf NInf = NaN"
| "exact_add NInf PInf = NaN"
| "exact_add NaN y = NaN"
| "exact_add x NaN = NaN"

fun exact_mul :: "jsnum \<Rightarrow> jsnum \<Rightarrow> jsnum" where
  "exact_mul (Fin a) (Fin b) = Fin (a * b)"
| "exact_mul (Fin a) PInf = (if a = 0 then NaN else if 0 < a then PInf else NInf)"
| "exact_mul (Fin a) NInf = (if a = 0 then NaN else if 0 < a then NInf else PInf)"
| "exact_mul PInf (Fin b) = (if b = 0 then NaN else if 0 < b then PInf else NInf)"
| "exact_mul NInf (Fin b) = (if b = 0 then NaN else if 0 < b then NInf else PInf)"
| "exact_mul PInf PInf = PInf"
| "exact_mul NInf NInf = PInf"
| "exact_mul PInf NInf = NInf"
| "exact_mul NInf PInf = NInf"
| "exact_mul NaN y = NaN"
| "exact_mul x NaN = NaN"

text \<open>Division never raises: \<open>x / 0\<close> is an infinity, and \<open>0 / 0\<close> is \<open>NaN\<close>.\<close>

fun exact_div :: "jsnum \<Rightarrow> jsnum \<Rightarrow> jsnum" where
  "exact_div (Fin a) (Fin b) =
     (if b \<noteq> 0 then Fin (a / b)
      else if 0 < a then PInf else if a < 0 then NInf else NaN)"
| "exact_div (Fin a) PInf = Fin 0"
| "exact_div (Fin a) NInf = Fin 0"
| "exact_div PInf (Fin b) = (if 0 \<le> b then PInf else NInf)"
| "exact_div NInf (Fin b) = (if 0 \<le> b then NInf else PInf)"
| "exact_div PInf PInf = NaN"
| "exact_div NInf NInf = NaN"
| "exact_div PInf NInf = NaN"
| "exact_div NInf PInf = NaN"
| "exact_div NaN y = NaN"
| "exact_div x NaN = NaN"

text \<open>
  \<open>Math.pow(base, exponent)\<close>, by the cases of the language standard: a \<open>NaN\<close> exponent
  gives \<open>NaN\<close>, a zero exponent gives 1 whatever the base, a zero base gives 0 or
  \<open>Infinity\<close>, and a negative base has a power only for an integral exponent. For a
  finite nonzero base and exponent the standard asks only for an approximation of the
  power, whose accuracy it leaves to the engine: that approximation \<open>pw\<close> is a parameter.
\<close>

definition is_integral :: "real \<Rightarrow> bool" where
  "is_integral r = (r = of_int \<lfloor>r\<rfloor>)"

fun js_pow :: "(real \<Rightarrow> real \<Rightarrow> jsnum) \<Rightarrow> jsnum \<Rightarrow> jsnum \<Rightarrow> jsnum" where
  "js_pow pw x NaN = NaN"
| "js_pow pw x (Fin e) =
     (if e = 0 then Fin 1
      else case x of
        NaN \<Rightarrow> NaN
      | PInf \<Rightarrow> (if 0 < e then PInf else Fin 0)
      | NInf \<Rightarrow>
          (if 0 < e then (if is_integral e \<and> odd \<lfloor>e\<rfloor> then NInf else PInf) else Fin 0)
      | Fin b \<Rightarrow>
          (if b = 0 then (if 0 < e then Fin 0 else PInf)
           else if b < 0 \<and> \<not> is_integral e then NaN
           else pw b e))"
| "js_pow pw x PInf =
     (case x of
        NaN \<Rightarrow> NaN
      | PInf \<Rightarrow> PInf
      | NInf \<Rightarrow> PInf
      | Fin b \<Rightarrow> (if 1 < \<bar>b\<bar> then PInf else if \<bar>b\<bar> = 1 then NaN else Fin 0))"
| "js_pow pw x NInf =
     (case x of
        NaN \<Rightarrow> NaN
      | PInf \<Rightarrow> Fin 0
      | NInf \<Rightarrow> Fin 0
      | Fin b \<Rightarrow> (if 1 < \<bar>b\<bar> then Fin 0 else if \<bar>b\<bar> = 1 then NaN else PInf))"

text \<open>A power rounded from its exact value, as an engine at its best computes it.\<close>

definition rounded_pow :: "rounding \<Rightarrow> real \<Rightarrow> real \<Rightarrow> jsnum" where
  "rounded_pow fl b e =
     fl (if 0 < b then b powr e
         else if odd \<lfloor>e\<rfloor> then - (\<bar>b\<bar> powr e) else \<bar>b\<bar> powr e)"

text \<open>The operators of the language: the exact result, rounded.\<close>

definition js_add :: "rounding \<Rightarrow> jsnum \<Rightarrow> jsnum \<Rightarrow> jsnum" where
  "js_add fl x y = js_round fl (exact_add x y)"

definition js_sub :: "rounding \<Rightarrow> jsnum \<Rightarrow> jsnum \<Rightarrow> jsnum" where
  "js_sub fl x y = js_round fl (exact_add x (js_neg y))"

definition js_mul :: "rounding \<Rightarrow> jsnum \<Rightarrow> jsnum \<Rightarrow> jsnum" where
  "js_mul fl x y = js_round fl (exact_mul x y)"

definition js_div :: "rounding \<Rightarrow> jsnum \<Rightarrow> jsnum \<Rightarrow> jsnum" where
  "js_div fl x y = js_round fl (exact_div x y)"

text \<open>Every comparison with \<open>NaN\<close> is false.\<close>

fun js_lt :: "jsnum \<Rightarrow> jsnum \<Rightarrow> bool" where
  "js_lt (Fin a) (Fin b) = (a < b)"
| "js_lt (Fin a) PInf = True"
| "js_lt (Fin a) NInf = False"
| "js_lt PInf y = False"
| "js_lt NInf (Fin b) = True"
| "js_lt NInf PInf = True"
| "js_lt NInf NInf = False"
| "js_lt NInf NaN = False"
| "js_lt (Fin a) NaN = False"
| "js_lt NaN y = False"

definition js_gt :: "jsnum \<Rightarrow> jsnum \<Rightarrow> bool" where
  "js_gt x y = js_lt y x"

fun js_le :: "jsnum \<Rightarrow> jsnum \<Rightarrow> bool" where
  "js_le (Fin a) (Fin b) = (a \<le> b)"
| "js_le (Fin a) PInf = True"
| "js_le (Fin a) NInf = False"
| "js_le PInf PInf = True"
| "js_le PInf (Fin b) = False"
| "js_le PInf NInf = False"
| "js_le NInf (Fin b) = True"
| "js_le NInf PInf = True"
| "js_le NInf NInf = True"
| "js_le NaN y = False"
| "js_le x NaN = False"

definition js_ge :: "jsnum \<Rightarrow> jsnum \<Rightarrow> bool" where
  "js_ge x y = js_le y x"

text \<open>\<open>Math.abs\<close> and \<open>Math.ceil\<close> are exact.\<close>

fun js_abs :: "jsnum \<Rightarrow> jsnum" where
  "js_abs (Fin a) = Fin \<bar>a\<bar>"
| "js_abs PInf = PInf"
| "js_abs NInf = PInf"
| "js_abs NaN = NaN"

fun js_ceil :: "jsnum \<Rightarrow> jsnum" where
  "js_ceil (Fin a) = Fin (of_int \<lceil>a\<rceil>)"
| "js_ceil PInf = PInf"
| "js_ceil NInf = NInf"
| "js_ceil NaN = NaN"

text \<open>\<open>x || 1\<close> on a number that may be absent: \<open>undefined\<close>, 0 and \<open>NaN\<close> are falsy.\<close>

fun js_truthy :: "jsnum option \<Rightarrow> bool" where
  "js_truthy None = False"
| "js_truthy (Some (Fin a)) = (a \<noteq> 0)"
| "js_truthy (Some NaN) = False"
| "js_truthy (Some PInf) = True"
| "js_truthy (Some NInf) = True"

section \<open>Classification of an interpolated value\<close>

text \<open>
  The bucket index \<open>order\<close> that \<open>interpolate\<close> computes from the interpolated value
  (lines 108 to 113 of \<^verbatim>\<open>idw.js\<close>). A literal of the source is the rounding of its
  decimal value; an integer literal is exact.
\<close>

definition order_interpolate :: "rounding \<Rightarrow> jsnum \<Rightarrow> jsnum" where
  "order_interpolate fl v =
     (if js_lt v (Fin 0) then js_sub fl (Fin 15) (js_ceil (js_div fl (js_abs v) (Fin 2)))
      else js_add fl (js_ceil (js_div fl v (Fin 2))) (Fin 14))"

text \<open>
  The bucket index of \<open>interpolate2\<close> (lines 174 to 253): the scheme is chosen by the
  name of the interpolated property, and \<open>order\<close> stays 0 for any other name.
\<close>

definition order_tem :: "rounding \<Rightarrow> jsnum \<Rightarrow> jsnum" where
  "order_tem fl v =
     (if js_lt v (Fin 0) then js_sub fl (Fin 15) (js_ceil (js_div fl (js_abs v) (Fin 2)))
      else js_add fl (js_ceil (js_div fl v (Fin 2))) (Fin 14))"

definition order_prs :: "rounding \<Rightarrow> jsnum \<Rightarrow> jsnum" where
  "order_prs fl v =
     (if js_lt v (Fin 969) then Fin 0
      else if js_gt v (Fin 1017) then Fin 16
      else js_sub fl (js_ceil (js_div fl (js_sub fl v (Fin 969)) (Fin 3))) (Fin 1))"

definition order_rhu :: "rounding \<Rightarrow> jsnum \<Rightarrow> jsnum" where
  "order_rhu fl v =
     (if js_le v (Fin 0) then Fin 0
      else if js_gt v (Fin 100) then Fin 9
      else js_sub fl (js_ceil (js_div fl v (Fin 10))) (Fin 1))"

definition order_winSMax :: "rounding \<Rightarrow> jsnum \<Rightarrow> jsnum" where
  "order_winSMax fl v =
     (if js_le v (fl 2.5) then Fin 0
      else if js_le v (fl 5.5) then Fin 1
      else if js_le v (fl 5.5) then Fin 2
      else if js_le v (fl 8.3) then Fin 3
      else if js_le v (fl 11.1) then Fin 4
      else if js_le v (fl 13.9) then Fin 5
      else if js_le v (fl 17.4) then Fin 6
      else if js_le v (fl 20.9) then Fin 7
      else if js_le v (fl 24.5) then Fin 8
      else if js_le v (Fin 29) then Fin 9
      else if js_le v (Fin 33) then Fin 10
      else if js_le v (Fin 37) then Fin 11
      else if js_le v (Fin 42) then Fin 12
      else if js_le v (Fin 47) then Fin 13
      else if js_le v (Fin 51) then Fin 14
      else if js_le v (Fin 67) then Fin 15
      else Fin 16)"

definition order_pre1h :: "rounding \<Rightarrow> jsnum \<Rightarrow> jsnum" where
  "order_pre1h fl v =
     (if js_le v (fl 0.2) then Fin 0
      else if js_le v (Fin 2) then Fin 1
      else if js_le v (Fin 4) then Fin 2
      else if js_le v (Fin 6) then Fin 3
      else if js_le v (Fin 8) then Fin 4
      else if js_le v (Fin 10) then Fin 5
      else if js_le v (Fin 20) then Fin 6
      else if js_le v (Fin 50) then Fin 7
      else Fin 8)"

definition order_interpolate2 :: "rounding \<Rightarrow> string \<Rightarrow> jsnum \<Rightarrow> jsnum" where
  "order_interpolate2 fl prop v =
     (if prop = ''tem'' then order_tem fl v
      else if prop = ''prs'' then order_prs fl v
      else if prop = ''rhu'' then order_rhu fl v
      else if prop = ''winSMax'' then order_winSMax fl v
      else if prop = ''pre1h'' then order_pre1h fl v
      else Fin 0)"

section \<open>Features, options and the geometry library\<close>

text \<open>
  A feature is a geometry with its \<open>properties\<close>. A sample of the input collection
  \<open>points\<close> has a geometry with a type name and a coordinate list; its \<open>properties\<close>
  are an object with numeric attributes, or \<open>null\<close> (\<open>None\<close>), which GeoJSON allows. A
  grid cell has whatever geometry the grid routine gave it, and its attribute map receives
  the interpolated number and the colour.
\<close>

datatype jsval = JNum jsnum | JStr string

record point_geometry =
  gtype :: string
  coordinates :: "jsnum list"

record ('g, 'p) feature =
  geometry :: 'g
  properties :: 'p

type_synonym point = "(point_geometry, (string \<rightharpoonup> jsnum) option) feature"

type_synonym 'g cell = "('g, string \<rightharpoonup> jsval) feature"

text \<open>An entry of the table \<open>breakProperties\<close>; only its \<open>fillcolor\<close> is read.\<close>

record bucket =
  fillcolor :: "jsval option"

text \<open>
  The options object. An absent field is \<open>None\<close>. \<open>weight\<close> is any value, since the
  code checks that it is a number; \<open>breaks\<close> is read and never used; \<open>units\<close> is only
  handed to the library.
\<close>

record options =
  gridType :: "string option"
  property :: "string option"
  units :: "string option"
  weight :: "jsval option"
  breaks :: "jsnum list option"
  breakProperties :: "bucket list option"
  colorProperty :: "string option"
  valid :: "jsnum option"

text \<open>
  The \<open>options\<close> argument as the caller passes it: a falsy value (replaced by \<open>{}\<close>),
  a truthy value that is not an object, or an object.
\<close>

datatype options_arg = OptAbsent | OptNotObject | OptObject options

definition empty_options :: options where
  "empty_options =
     \<lparr>gridType = None, property = None, units = None, weight = None, breaks = None,
      breakProperties = None, colorProperty = None, valid = None\<rparr>"

fun options_or_empty :: "options_arg \<Rightarrow> options" where
  "options_or_empty (OptObject opts) = opts"
| "options_or_empty OptAbsent = empty_options"
| "options_or_empty OptNotObject = empty_options"

text \<open>
  What a call can throw: \<open>new Error(message)\<close>, or the \<open>TypeError\<close> of reading a
  property of \<open>undefined\<close>.
\<close>

datatype error = Error string | TypeError

text \<open>
  What the module takes from outside is a parameter of the model: the routines of the turf
  library that it imports, the rounding \<open>rnd\<close> of the engine's arithmetic and the
  engine's approximation \<open>pow_approx\<close> of a power. \<open>bbox\<close> and the four grid routines
  may throw; \<open>centroid\<close> and \<open>distance\<close> are taken to return on every feature they are
  given. The grid routines receive the cell size and the options as the caller passed
  them.
\<close>

record 'g turf =
  rnd :: rounding
  pow_approx :: "real \<Rightarrow> real \<Rightarrow> jsnum"
  bbox :: "point list option \<Rightarrow> error + jsnum list"
  pointGrid :: "jsnum list \<Rightarrow> jsnum option \<Rightarrow> options_arg \<Rightarrow> error + 'g cell list"
  squareGrid :: "jsnum list \<Rightarrow> jsnum option \<Rightarrow> options_arg \<Rightarrow> error + 'g cell list"
  hexGrid :: "jsnum list \<Rightarrow> jsnum option \<Rightarrow> options_arg \<Rightarrow> error + 'g cell list"
  triangleGrid :: "jsnum list \<Rightarrow> jsnum option \<Rightarrow> options_arg \<Rightarrow> error + 'g cell list"
  centroid :: "'g cell \<Rightarrow> 'g cell"
  distance :: "'g cell \<Rightarrow> point \<Rightarrow> options \<Rightarrow> jsnum"

text \<open>
  \<open>collectionOf(points, 'Point', name)\<close> of \<^verbatim>\<open>@turf/invariant\<close>: it throws at the first
  feature whose geometry type is not the one asked for, naming the type it found.
\<close>

fun collectionOf :: "point list \<Rightarrow> string \<Rightarrow> string \<Rightarrow> error + unit" where
  "collectionOf [] t name = Inr ()"
| "collectionOf (f # fs) t name =
     (if gtype (geometry f) = t then collectionOf fs t name
      else Inl (Error (''Invalid input to '' @ name @ '': must be a '' @ t @ '', given ''
                        @ gtype (geometry f))))"

text \<open>\<open>featureEach\<close>: the callback runs on each feature in order; a throw ends the loop.\<close>

fun featureEach :: "('s \<Rightarrow> 'a \<Rightarrow> error + 's) \<Rightarrow> 's \<Rightarrow> 'a list \<Rightarrow> error + 's" where
  "featureEach f s [] = Inr s"
| "featureEach f s (x # xs) =
     (case f s x of Inl e \<Rightarrow> Inl e | Inr s' \<Rightarrow> featureEach f s' xs)"

text \<open>\<open>x || 'default'\<close> on a string that may be absent: the empty string is falsy.\<close>

fun string_or :: "string option \<Rightarrow> string \<Rightarrow> string" where
  "string_or None d = d"
| "string_or (Some s) d = (if s = [] then d else s)"

text \<open>\<open>weight || 1\<close>, once the weight is known to be a number or absent.\<close>

fun weight_or_1 :: "jsval option \<Rightarrow> jsnum" where
  "weight_or_1 (Some (JNum w)) = (if js_truthy (Some w) then w else Fin 1)"
| "weight_or_1 (Some (JStr s)) = Fin 1"
| "weight_or_1 None = Fin 1"

fun weight_invalid :: "jsval option \<Rightarrow> bool" where
  "weight_invalid None = False"
| "weight_invalid (Some (JNum w)) = False"
| "weight_invalid (Some (JStr s)) = True"

text \<open>An attribute name used as a key: \<open>undefined\<close> becomes the key \<open>"undefined"\<close>.\<close>

fun prop_key :: "string option \<Rightarrow> string" where
  "prop_key None = ''undefined''"
| "prop_key (Some k) = k"

text \<open>
  \<open>point.properties[property]\<close> on a properties object: an attribute of the object
  itself, else a member that every object inherits from \<open>Object.prototype\<close>, else
  \<open>undefined\<close>. An inherited member is a function or an object and not \<open>undefined\<close>;
  wherever the loop uses it as a number it converts to \<open>NaN\<close>, and a \<open>zw\<close> that it
  turns into a string behaves from then on as \<open>NaN\<close> does, so it is read as \<open>NaN\<close>.
\<close>

definition object_prototype_keys :: "string list" where
  "object_prototype_keys =
     [''constructor'', ''hasOwnProperty'', ''isPrototypeOf'', ''propertyIsEnumerable'',
      ''toLocaleString'', ''toString'', ''valueOf'', ''__proto__'', ''__defineGetter__'',
      ''__defineSetter__'', ''__lookupGetter__'', ''__lookupSetter__'']"

definition get_property :: "(string \<rightharpoonup> jsnum) \<Rightarrow> string \<Rightarrow> jsnum option" where
  "get_property m k =
     (case m k of
        Some z \<Rightarrow> Some z
      | None \<Rightarrow> (if k \<in> set object_prototype_keys then Some NaN else None))"

text \<open>
  \<open>zValue\<close>: the named attribute, else the third coordinate, else \<open>undefined\<close>
  (lines 90 to 93 and 154 to 157). Reading an attribute of \<open>properties\<close> that are
  \<open>null\<close> is a \<open>TypeError\<close>, raised by the loops below; no value is found then.
\<close>

definition zValue_of :: "string \<Rightarrow> point \<Rightarrow> jsnum option" where
  "zValue_of prop pt =
     (case properties pt of
        None \<Rightarrow> None
      | Some m \<Rightarrow>
          (case get_property m prop of
             Some z \<Rightarrow> Some z
           | None \<Rightarrow>
               (if 2 < length (coordinates (geometry pt))
                then Some (coordinates (geometry pt) ! 2) else None)))"

text \<open>
  \<open>breakProperties[order]\<close>: an array has an element only at an integral index within
  its length; any other index reads \<open>undefined\<close>.
\<close>

definition table_get :: "'a list \<Rightarrow> jsnum \<Rightarrow> 'a option" where
  "table_get tbl ord =
     (case ord of
        Fin r \<Rightarrow>
          (if is_integral r \<and> 0 \<le> r \<and> r < real (length tbl) then Some (tbl ! nat \<lfloor>r\<rfloor>)
           else None)
      | PInf \<Rightarrow> None
      | NInf \<Rightarrow> None
      | NaN \<Rightarrow> None)"

section \<open>interpolate\<close>

text \<open>
  The callback of the inner loop (lines 87 to 100): the pair is \<open>(zw, sw)\<close>. A distance
  of 0 overwrites \<open>zw\<close>, and the sample is then weighted like any other. Line 92 reads
  an attribute of \<open>point.properties\<close>, which throws when they are \<open>null\<close>.
\<close>

definition gridPoint_of :: "'g turf \<Rightarrow> string \<Rightarrow> 'g cell \<Rightarrow> 'g cell" where
  "gridPoint_of lib gtp gridFeature =
     (if gtp = ''point'' then gridFeature else centroid lib gridFeature)"

definition accumulate ::
  "'g turf \<Rightarrow> options \<Rightarrow> string \<Rightarrow> string \<Rightarrow> jsnum \<Rightarrow> 'g cell \<Rightarrow>
   jsnum \<times> jsnum \<Rightarrow> point \<Rightarrow> error + jsnum \<times> jsnum" where
  "accumulate lib opts gtp prop wt gridFeature acc pt =
     (let d = distance lib (gridPoint_of lib gtp gridFeature) pt opts in
      if properties pt = None then Inl TypeError
      else case zValue_of prop pt of
        None \<Rightarrow> Inl (Error ''zValue is missing'')
      | Some zValue \<Rightarrow>
          (let zw = (if d = Fin 0 then zValue else fst acc);
               w = js_div (rnd lib) (Fin 1) (js_pow (pow_approx lib) d wt)
           in Inr (js_add (rnd lib) zw (js_mul (rnd lib) w zValue),
                   js_add (rnd lib) (snd acc) w)))"

text \<open>Writing an attribute of the cloned cell; assigning \<open>undefined\<close> leaves it unreadable.\<close>

definition set_property :: "'g cell \<Rightarrow> string \<Rightarrow> jsval option \<Rightarrow> 'g cell" where
  "set_property c k v = c\<lparr>properties := (properties c)(k := v)\<rparr>"

text \<open>
  Line 114: the colour of bucket \<open>order\<close> is read without a check, so a missing table or
  a missing entry is a \<open>TypeError\<close>.
\<close>

definition assign_color :: "'g turf \<Rightarrow> options \<Rightarrow> jsnum \<Rightarrow> 'g cell \<Rightarrow> error + 'g cell" where
  "assign_color lib opts v newFeature =
     (case breakProperties opts of
        None \<Rightarrow> Inl TypeError
      | Some tbl \<Rightarrow>
          (case table_get tbl (order_interpolate (rnd lib) v) of
             None \<Rightarrow> Inl TypeError
           | Some b \<Rightarrow>
               Inr (set_property newFeature (prop_key (colorProperty opts)) (fillcolor b))))"

text \<open>
  The callback of the outer loop (lines 83 to 116), for one grid cell: the weighted
  average \<open>zw / sw\<close> is written to the clone, then the colour.
\<close>

definition interpolate_cell ::
  "'g turf \<Rightarrow> options \<Rightarrow> string \<Rightarrow> string \<Rightarrow> jsnum \<Rightarrow> point list \<Rightarrow> 'g cell \<Rightarrow>
   error + 'g cell" where
  "interpolate_cell lib opts gtp prop wt points gridFeature =
     (case featureEach (accumulate lib opts gtp prop wt gridFeature) (Fin 0, Fin 0) points of
        Inl e \<Rightarrow> Inl e
      | Inr (zw, sw) \<Rightarrow>
          (let v = js_div (rnd lib) zw sw
           in assign_color lib opts v (set_property gridFeature prop (Some (JNum v)))))"

definition push_result ::
  "('c \<Rightarrow> error + 'c) \<Rightarrow> 'c list \<Rightarrow> 'c \<Rightarrow> error + 'c list" where
  "push_result f results gridFeature =
     (case f gridFeature of Inl e \<Rightarrow> Inl e | Inr newFeature \<Rightarrow> Inr (results @ [newFeature]))"

definition make_grid ::
  "'g turf \<Rightarrow> string \<Rightarrow> jsnum list \<Rightarrow> jsnum option \<Rightarrow> options_arg \<Rightarrow> error + 'g cell list" where
  "make_grid lib gtp box cellSize opts =
     (if gtp = ''point'' \<or> gtp = ''points'' then pointGrid lib box cellSize opts
      else if gtp = ''square'' \<or> gtp = ''squares'' then squareGrid lib box cellSize opts
      else if gtp = ''hex'' \<or> gtp = ''hexes'' then hexGrid lib box cellSize opts
      else if gtp = ''triangle'' \<or> gtp = ''triangles'' then triangleGrid lib box cellSize opts
      else Inl (Error ''invalid gridType''))"

definition interpolate ::
  "'g turf \<Rightarrow> point list option \<Rightarrow> jsnum option \<Rightarrow> options_arg \<Rightarrow> error + 'g cell list" where
  "interpolate lib points cellSize options_arg =
     (let opts = options_or_empty options_arg in
      if options_arg = OptNotObject then Inl (Error ''options is invalid'')
      else case points of
        None \<Rightarrow> Inl (Error ''points is required'')
      | Some pts \<Rightarrow>
          (case collectionOf pts ''Point'' ''input must contain Points'' of
             Inl e \<Rightarrow> Inl e
           | Inr u \<Rightarrow>
               if \<not> js_truthy cellSize then Inl (Error ''cellSize is required'')
               else if weight_invalid (weight opts) then Inl (Error ''weight must be a number'')
               else
                 (let prop = string_or (property opts) ''elevation'';
                      gtp = string_or (gridType opts) ''square'';
                      wt = weight_or_1 (weight opts)
                  in case bbox lib points of
                       Inl e \<Rightarrow> Inl e
                     | Inr box \<Rightarrow>
                         (case make_grid lib gtp box cellSize (OptObject opts) of
                            Inl e \<Rightarrow> Inl e
                          | Inr grid \<Rightarrow>
                              featureEach
                                (push_result (interpolate_cell lib opts gtp prop wt pts))
                                [] grid))))"

section \<open>genSquareGrid\<close>

definition genSquareGrid ::
  "'g turf \<Rightarrow> point list option \<Rightarrow> jsnum option \<Rightarrow> options_arg \<Rightarrow> error + 'g cell list" where
  "genSquareGrid lib points cellSize opts =
     (case bbox lib points of
        Inl e \<Rightarrow> Inl e
      | Inr box \<Rightarrow> squareGrid lib box cellSize opts)"

section \<open>interpolate2\<close>

text \<open>\<open>Math.abs(zValue) < options.valid\<close>: false when \<open>valid\<close> is absent.\<close>

fun passes_valid :: "jsnum \<Rightarrow> jsnum option \<Rightarrow> bool" where
  "passes_valid z None = False"
| "passes_valid z (Some t) = js_lt (js_abs z) t"

text \<open>
  The callback of the inner loop (lines 152 to 166): a sample that fails the filter leaves
  \<open>(zw, sw)\<close> as it is, and its distance is not computed.
\<close>

definition accumulate2 ::
  "'g turf \<Rightarrow> options \<Rightarrow> string \<Rightarrow> string \<Rightarrow> jsnum \<Rightarrow> 'g cell \<Rightarrow>
   jsnum \<times> jsnum \<Rightarrow> point \<Rightarrow> error + jsnum \<times> jsnum" where
  "accumulate2 lib opts gtp prop wt gridFeature acc pt =
     (if properties pt = None then Inl TypeError
      else case zValue_of prop pt of
        None \<Rightarrow> Inl (Error ''zValue is missing'')
      | Some zValue \<Rightarrow>
          if passes_valid zValue (valid opts) then
            (let d = distance lib (gridPoint_of lib gtp gridFeature) pt opts;
                 zw = (if d = Fin 0 then zValue else fst acc);
                 w = js_div (rnd lib) (Fin 1) (js_pow (pow_approx lib) d wt)
             in Inr (js_add (rnd lib) zw (js_mul (rnd lib) w zValue),
                     js_add (rnd lib) (snd acc) w))
          else Inr acc)"

text \<open>
  Lines 254 to 256: the colour is written only when the table has an entry at \<open>order\<close>;
  indexing the table still needs \<open>breakProperties\<close> to be there.
\<close>

definition assign_color2 ::
  "'g turf \<Rightarrow> options \<Rightarrow> string \<Rightarrow> jsnum \<Rightarrow> 'g cell \<Rightarrow> error + 'g cell" where
  "assign_color2 lib opts prop v newFeature =
     (case breakProperties opts of
        None \<Rightarrow> Inl TypeError
      | Some tbl \<Rightarrow>
          (case table_get tbl (order_interpolate2 (rnd lib) prop v) of
             None \<Rightarrow> Inr newFeature
           | Some b \<Rightarrow>
               Inr (set_property newFeature (prop_key (colorProperty opts)) (fillcolor b))))"

text \<open>The callback of the outer loop (lines 148 to 259), for one grid cell.\<close>

definition interpolate2_cell ::
  "'g turf \<Rightarrow> options \<Rightarrow> string \<Rightarrow> string \<Rightarrow> jsnum \<Rightarrow> point list \<Rightarrow> 'g cell \<Rightarrow>
   error + 'g cell" where
  "interpolate2_cell lib opts gtp prop wt points gridFeature =
     (case featureEach (accumulate2 lib opts gtp prop wt gridFeature) (Fin 0, Fin 0) points of
        Inl e \<Rightarrow> Inl e
      | Inr (zw, sw) \<Rightarrow>
          (let v = js_div (rnd lib) zw sw
           in assign_color2 lib opts prop v (set_property gridFeature prop (Some (JNum v)))))"

definition interpolate2 ::
  "'g turf \<Rightarrow> point list option \<Rightarrow> 'g cell list \<Rightarrow> options_arg \<Rightarrow> error + 'g cell list" where
  "interpolate2 lib points grid options_arg =
     (let opts = options_or_empty options_arg in
      if options_arg = OptNotObject then Inl (Error ''options is invalid'')
      else case points of
        None \<Rightarrow> Inl (Error ''points is required'')
      | Some pts \<Rightarrow>
          (case collectionOf pts ''Point'' ''input must contain Points'' of
             Inl e \<Rightarrow> Inl e
           | Inr u \<Rightarrow>
               if weight_invalid (weight opts) then Inl (Error ''weight must be a number'')
               else
                 (let prop = string_or (property opts) ''elevation'';
                      gtp = string_or (gridType opts) ''square'';
                      wt = weight_or_1 (weight opts)
                  in featureEach
                       (push_result (interpolate2_cell lib opts gtp prop wt pts))
                       [] grid)))"

section \<open>The rule of the specification for temperatures\<close>

text \<open>
  The two-branch rule as the specification words it: a negative value goes to
  \<open>15 - ceil(|v| / 2)\<close>, any other value to \<open>ceil(v / 2) + 14\<close>.
\<close>

definition tem_rule_spec :: "rounding \<Rightarrow> jsnum \<Rightarrow> jsnum" where
  "tem_rule_spec fl v =
     (if js_lt v (Fin 0) then js_sub fl (Fin 15) (js_ceil (js_div fl (js_abs v) (Fin 2)))
      else js_add fl (js_ceil (js_div fl v (Fin 2))) (Fin 14))"

section \<open>The rounding of binary64\<close>

text \<open>
  Round to nearest, ties to even, with 53 significant bits; the exponent of a subnormal
  value is held at \<open>-1022\<close>, and a result of magnitude \<open>2 ^ 1024\<close> overflows to an
  infinity.
\<close>

definition round_half_even :: "real \<Rightarrow> int" where
  "round_half_even x =
     (let n = \<lfloor>x\<rfloor> in
      if x - of_int n < 1 / 2 then n
      else if 1 / 2 < x - of_int n then n + 1
      else if even n then n else n + 1)"

definition binary64 :: rounding where
  "binary64 x =
     (if x = 0 then Fin 0
      else
        (let e = max \<lfloor>log 2 \<bar>x\<bar>\<rfloor> (- 1022);
             u = 2 powi (e - 52);
             y = of_int (round_half_even (x / u)) * u
         in if 2 ^ 1024 \<le> \<bar>y\<bar> then (if 0 < x then PInf else NInf) else Fin y))"

section \<open>A library on a line\<close>

text \<open>
  A small instance of the library, for evaluating the functions at concrete inputs. A grid
  cell is a position on the x axis and a sample lies at its first coordinate; the distance
  is the absolute difference; the bounding box is the interval of the samples, which for
  an empty collection is the inverted \<open>[Infinity, -Infinity]\<close>; each grid routine returns
  the given cells over a box that is not inverted and no cell otherwise; a power is the
  exact power, rounded.
\<close>

definition xcoord :: "point \<Rightarrow> jsnum" where
  "xcoord p = (case coordinates (geometry p) of [] \<Rightarrow> NaN | x # cs \<Rightarrow> x)"

definition js_min :: "jsnum \<Rightarrow> jsnum \<Rightarrow> jsnum" where
  "js_min x y = (if js_lt y x then y else x)"

definition js_max :: "jsnum \<Rightarrow> jsnum \<Rightarrow> jsnum" where
  "js_max x y = (if js_lt x y then y else x)"

definition line_bbox :: "point list option \<Rightarrow> error + jsnum list" where
  "line_bbox points =
     (case points of
        None \<Rightarrow> Inl TypeError
      | Some pts \<Rightarrow>
          Inr [foldr js_min (map xcoord pts) PInf, foldr js_max (map xcoord pts) NInf])"

definition line_grid ::
  "jsnum cell list \<Rightarrow> jsnum list \<Rightarrow> jsnum option \<Rightarrow> options_arg \<Rightarrow> error + jsnum cell list" where
  "line_grid g box cellSize opts =
     (case box of
        [west, east] \<Rightarrow> (if js_le west east then Inr g else Inr [])
      | _ \<Rightarrow> Inl TypeError)"

definition line_distance :: "rounding \<Rightarrow> jsnum cell \<Rightarrow> point \<Rightarrow> options \<Rightarrow> jsnum" where
  "line_distance fl c p opts = js_abs (js_sub fl (geometry c) (xcoord p))"

definition line_lib :: "rounding \<Rightarrow> jsnum cell list \<Rightarrow> jsnum turf" where
  "line_lib fl g =
     \<lparr>rnd = fl, pow_approx = rounded_pow fl, bbox = line_bbox, pointGrid = line_grid g,
      squareGrid = line_grid g,
      hexGrid = line_grid g, triangleGrid = line_grid g, centroid = (\<lambda>c. c),
      distance = line_distance fl\<rparr>"

definition line_cell :: "real \<Rightarrow> jsnum cell" where
  "line_cell x = \<lparr>geometry = Fin x, properties = Map.empty\<rparr>"

definition line_point :: "real \<Rightarrow> (string \<rightharpoonup> jsnum) \<Rightarrow> point" where
  "line_point x props =
     \<lparr>geometry = \<lparr>gtype = ''Point'', coordinates = [Fin x, Fin 0]\<rparr>,
      properties = Some props\<rparr>"

section \<open>Invariants of the accumulation\<close>

text \<open>
  Once a sample at distance 0 has been weighted by \<open>1 / 0\<close>, \<open>zw\<close> is not finite and
  \<open>sw\<close> is \<open>Infinity\<close> or \<open>NaN\<close>, and no later sample changes that.
\<close>

definition nonfinite :: "jsnum \<Rightarrow> bool" where
  "nonfinite x = (case x of Fin r \<Rightarrow> False | PInf \<Rightarrow> True | NInf \<Rightarrow> True | NaN \<Rightarrow> True)"

definition stuck :: "jsnum \<times> jsnum \<Rightarrow> bool" where
  "stuck st = (nonfinite (fst st) \<and> (snd st = PInf \<or> snd st = NaN))"



section \<open>Concrete inputs\<close>

text \<open>A table of twenty buckets and an options object, for the evaluations below.\<close>

definition demo_table :: "bucket list" where
  "demo_table = replicate 20 \<lparr>fillcolor = Some (JStr ''#cc0000'')\<rparr>"

definition demo_options :: "string \<Rightarrow> options" where
  "demo_options prop =
     \<lparr>gridType = None, property = Some prop, units = None, weight = None, breaks = None,
      breakProperties = Some demo_table, colorProperty = Some ''color'',
      valid = Some (Fin 1000)\<rparr>"

section \<open>Evaluating the rounding of binary64\<close>

text \<open>
  The rounding of a value is found from its binary exponent and the rounded significand;
  an integer below \<open>2 ^ 53\<close> is its own rounding.
\<close>

lemma floor_log2_eq:
  assumes "2 powi k \<le> x" "x < 2 powi (k + 1)"
  shows "\<lfloor>log 2 x\<rfloor> = k"
proof -
  have "(0::real) < 2 powi k" by simp
  then have pos: "0 < x" using assms(1) by linarith
  have "(2::real) powr (of_int k) = 2 powi k" "(2::real) powr (of_int (k + 1)) = 2 powi (k + 1)"
    using powr_real_of_int'[of 2 k] powr_real_of_int'[of 2 "k + 1"] by simp_all
  then have "2 powr (of_int k) \<le> x" "x < 2 powr (of_int (k + 1))"
    using assms by simp_all
  then have "of_int k \<le> log 2 x" "log 2 x < of_int (k + 1)"
    using pos by (simp_all add: le_log_iff log_less_iff)
  then show ?thesis by linarith
qed

lemma binary64_eval:
  assumes "2 powi k \<le> \<bar>x\<bar>" "\<bar>x\<bar> < 2 powi (k + 1)" "- 1022 \<le> k"
    and "round_half_even (x / 2 powi (k - 52)) = m"
    and "\<bar>of_int m * 2 powi (k - 52)\<bar> < (2::real) ^ 1024"
  shows "binary64 x = Fin (of_int m * 2 powi (k - 52))"
proof -
  have "(0::real) < 2 powi k" by simp
  then have "x \<noteq> 0" using assms(1) by linarith
  moreover have "\<lfloor>log 2 \<bar>x\<bar>\<rfloor> = k" using assms(1,2) by (rule floor_log2_eq)
  ultimately show ?thesis using assms(3,4,5) by (simp add: binary64_def Let_def max_def)
qed

lemma round_half_even_int: "round_half_even (of_int n) = n"
  by (simp add: round_half_even_def)

lemma binary64_int:
  assumes "\<bar>n\<bar> < 2 ^ 53"
  shows "binary64 (of_int n) = Fin (of_int n)"
proof (cases "n = 0")
  case True
  then show ?thesis by (simp add: binary64_def)
next
  case False
  define k where "k = \<lfloor>log 2 \<bar>real_of_int n\<bar>\<rfloor>"
  have n1: "1 \<le> \<bar>real_of_int n\<bar>" using False by linarith 
  have k0: "0 \<le> k" unfolding k_def using n1 by simp
  have "\<bar>real_of_int n\<bar> < 2 ^ 53" using assms by (metis of_int_abs of_int_less_numeral_power_cancel_iff)
  then have "log 2 \<bar>real_of_int n\<bar> < 53" using n1 by (simp add: log_less_iff powr_realpow[symmetric] del: of_int_abs)
  then have k52: "k \<le> 52" unfolding k_def by linarith
  have u: "(2::real) powi (k - 52) = 1 / 2 ^ nat (52 - k)"
    using k52 by (simp add: power_int_def power_one_over)
  have q: "real_of_int n / 2 powi (k - 52) = of_int (n * 2 ^ nat (52 - k))"
    unfolding u by simp
  have r: "round_half_even (real_of_int n / 2 powi (k - 52)) = n * 2 ^ nat (52 - k)"
    unfolding q by (rule round_half_even_int)
  have y: "real_of_int (n * 2 ^ nat (52 - k)) * 2 powi (k - 52) = of_int n"
    unfolding u by simp
  have big: "\<bar>real_of_int n\<bar> < 2 ^ 1024"
  proof -
    have "(2::real) ^ 53 \<le> 2 ^ 1024" by (rule power_increasing) simp_all
    with \<open>\<bar>real_of_int n\<bar> < 2 ^ 53\<close> show ?thesis by linarith
  qed
  have "max k (- 1022) = k" using k0 by simp
  then show ?thesis
    using False big unfolding binary64_def Let_def k_def[symmetric]
    by (simp only: r y) (simp del: of_int_abs)
qed

lemma binary64_numeral:
  "numeral k < (2::int) ^ 53 \<Longrightarrow> binary64 (numeral k) = Fin (numeral k)"
  using binary64_int[of "numeral k"] by simp

lemma binary64_neg_numeral:
  "numeral k < (2::int) ^ 53 \<Longrightarrow> binary64 (- numeral k) = Fin (- numeral k)"
  using binary64_int[of "- numeral k"] by simp

lemma binary64_0: "binary64 0 = Fin 0"
  by (simp add: binary64_def)

lemma binary64_1: "binary64 1 = Fin 1"
  using binary64_int[of 1] by simp

lemma binary64_m1: "binary64 (- 1) = Fin (- 1)"
  using binary64_int[of "- 1"] by simp

lemmas binary64_small = binary64_numeral binary64_neg_numeral binary64_0 binary64_1 binary64_m1

lemma line_lib_sel:
  "rnd (line_lib fl g) = fl"
  "pow_approx (line_lib fl g) = rounded_pow fl"
  "bbox (line_lib fl g) = line_bbox"
  "pointGrid (line_lib fl g) = line_grid g"
  "squareGrid (line_lib fl g) = line_grid g"
  "hexGrid (line_lib fl g) = line_grid g"
  "triangleGrid (line_lib fl g) = line_grid g"
  "centroid (line_lib fl g) = (\<lambda>c. c)"
  "distance (line_lib fl g) = line_distance fl"
  by (simp_all add: line_lib_def)

lemmas js_ops = js_add_def js_sub_def js_mul_def js_div_def rounded_pow_def js_gt_def js_ge_def

lemma b64_literals:
  "binary64 (5 / 2) = Fin (5629499534213120 / 2 ^ 51)"
  "binary64 (11 / 2) = Fin (6192449487634432 / 2 ^ 50)"
  "binary64 (83 / 10) = Fin (4672484613396890 / 2 ^ 49)"
  "binary64 (111 / 10) = Fin (6248744482976563 / 2 ^ 49)"
  "binary64 (139 / 10) = Fin (7825004352556237 / 2 ^ 49)"
  "binary64 (87 / 5) = Fin (4897664594765414 / 2 ^ 48)"
  "binary64 (209 / 10) = Fin (5882827013252710 / 2 ^ 48)"
  "binary64 (49 / 2) = Fin (6896136929411072 / 2 ^ 48)"
  "binary64 (10171 / 10) = Fin (8946506212887757 / 2 ^ 43)"
  "binary64 (1001 / 10) = Fin (7043911292184166 / 2 ^ 46)"
  "binary64 (1 / 5) = Fin (7205759403792794 / 2 ^ 55)"
  "binary64 (501 / 10) = Fin (7050948166601933 / 2 ^ 47)"
  using
    binary64_eval[of 1 "5 / 2" 5629499534213120]
    binary64_eval[of 2 "11 / 2" 6192449487634432]
    binary64_eval[of 3 "83 / 10" 4672484613396890]
    binary64_eval[of 3 "111 / 10" 6248744482976563]
    binary64_eval[of 3 "139 / 10" 7825004352556237]
    binary64_eval[of 4 "87 / 5" 4897664594765414]
    binary64_eval[of 4 "209 / 10" 5882827013252710]
    binary64_eval[of 4 "49 / 2" 6896136929411072]
    binary64_eval[of 9 "10171 / 10" 8946506212887757]
    binary64_eval[of 6 "1001 / 10" 7043911292184166]
    binary64_eval[of "-3" "1 / 5" 7205759403792794]
    binary64_eval[of 5 "501 / 10" 7050948166601933]
  by (simp_all add: round_half_even_def power_int_minus field_simps)



section \<open>The loops\<close>

lemma featureEach_append:
  "featureEach f s (xs @ ys) =
     (case featureEach f s xs of Inl e \<Rightarrow> Inl e | Inr s' \<Rightarrow> featureEach f s' ys)"
  by (induction xs arbitrary: s) (auto split: sum.splits)

lemma featureEach_skip:
  assumes "\<And>s. f s p = Inr s"
  shows "featureEach f s (xs @ p # ys) = featureEach f s (xs @ ys)"
  by (simp add: featureEach_append assms split: sum.splits)

lemma push_result_Inl: "f c = Inl e \<Longrightarrow> push_result f acc c = Inl e"
  by (simp add: push_result_def)

lemma push_result_Inr: "f c = Inr y \<Longrightarrow> push_result f acc c = Inr (acc @ [y])"
  by (simp add: push_result_def)


lemma featureEach_push_error:
  assumes "\<And>c. c \<in> set grid \<Longrightarrow> f c = Inl e \<or> (\<exists>y. f c = Inr y)"
    and "c \<in> set grid" "f c = Inl e"
  shows "featureEach (push_result f) acc grid = Inl e"
  using assms
proof (induction grid arbitrary: acc)
  case Nil
  then show ?case by simp
next
  case (Cons a grid)
  show ?case
  proof (cases "f a")
    case (Inl e')
    then have "e' = e" using Cons.prems(1)[of a] by auto
    then show ?thesis using Inl by (simp add: push_result_Inl)
  next
    case (Inr y)
    then have "c \<in> set grid" using Cons.prems(2,3) by auto
    then have "featureEach (push_result f) (acc @ [y]) grid = Inl e"
      using Cons.IH Cons.prems by auto
    then show ?thesis using Inr by (simp add: push_result_Inr)
  qed
qed

lemma js_ge_not_lt: "js_ge x y \<Longrightarrow> \<not> js_lt x y"
  unfolding js_ge_def by (cases x; cases y) simp_all

lemma zValue_Some_properties: "zValue_of prop p = Some z \<Longrightarrow> properties p \<noteq> None"
  by (cases "properties p") (simp_all add: zValue_of_def)

lemma accumulate2_filtered:
  assumes "zValue_of prop p = Some z" "\<not> passes_valid z (valid opts)"
  shows "accumulate2 lib opts gtp prop wt c acc p = Inr acc"
  using assms zValue_Some_properties[OF assms(1)] by (simp add: accumulate2_def)

lemma accumulate2_null:
  "properties p = None \<Longrightarrow> accumulate2 lib opts gtp prop wt c acc p = Inl TypeError"
  by (simp add: accumulate2_def)

lemma accumulate2_None:
  "properties p \<noteq> None \<Longrightarrow> zValue_of prop p = None \<Longrightarrow>
   accumulate2 lib opts gtp prop wt c acc p = Inl (Error ''zValue is missing'')"
  by (simp add: accumulate2_def)

lemma accumulate2_Some:
  "zValue_of prop p = Some z \<Longrightarrow> \<exists>acc'. accumulate2 lib opts gtp prop wt c acc p = Inr acc'"
  using zValue_Some_properties[of _ p z] by (simp add: accumulate2_def Let_def)

lemma accumulate_null:
  "properties p = None \<Longrightarrow> accumulate lib opts gtp prop wt c acc p = Inl TypeError"
  by (simp add: accumulate_def Let_def)

lemma accumulate_None:
  "properties p \<noteq> None \<Longrightarrow> zValue_of prop p = None \<Longrightarrow>
   accumulate lib opts gtp prop wt c acc p = Inl (Error ''zValue is missing'')"
  by (simp add: accumulate_def Let_def)

lemma accumulate_Some:
  "zValue_of prop p = Some z \<Longrightarrow> \<exists>acc'. accumulate lib opts gtp prop wt c acc p = Inr acc'"
  using zValue_Some_properties[of _ p z] by (simp add: accumulate_def Let_def)

lemma featureEach_raise_at:
  assumes "\<And>s q. q \<in> set xs \<Longrightarrow> f s q = Inl e \<or> (\<exists>s'. f s q = Inr s')"
    and "\<And>s. f s p = Inl e"
  shows "featureEach f acc (xs @ p # ys) = Inl e"
  using assms(1)
proof (induction xs arbitrary: acc)
  case Nil
  then show ?case by (simp add: assms(2))
next
  case (Cons a xs)
  have rest: "\<And>s q. q \<in> set xs \<Longrightarrow> f s q = Inl e \<or> (\<exists>s'. f s q = Inr s')"
    using Cons.prems by simp
  from Cons.prems[of a acc] consider "f acc a = Inl e" | s' where "f acc a = Inr s'"
    by auto
  then show ?case
  proof cases
    case 1
    then show ?thesis by simp
  next
    case 2
    then show ?thesis using Cons.IH[OF rest] by simp
  qed
qed

lemma featureEach_total:
  assumes "\<And>s q z. zValue_of prop q = Some z \<Longrightarrow> \<exists>s'. f s q = Inr s'"
    and "\<And>p. p \<in> set pts \<Longrightarrow> zValue_of prop p \<noteq> None"
  shows "\<exists>s'. featureEach f acc pts = Inr s'"
  using assms(2)
proof (induction pts arbitrary: acc)
  case Nil
  then show ?case by simp
next
  case (Cons a pts)
  then obtain z where "zValue_of prop a = Some z" by fastforce
  then obtain s' where "f acc a = Inr s'" using assms(1) by blast
  then show ?case using Cons by simp
qed

lemma accumulate2_step_cases:
  assumes "properties q \<noteq> None"
  shows "accumulate2 lib opts gtp prop wt c s q = Inl (Error ''zValue is missing'') \<or>
         (\<exists>s'. accumulate2 lib opts gtp prop wt c s q = Inr s')"
  using assms accumulate2_None[of q] accumulate2_Some[of _ q]
  by (cases "zValue_of prop q") blast+

lemma accumulate_step_cases:
  assumes "properties q \<noteq> None"
  shows "accumulate lib opts gtp prop wt c s q = Inl (Error ''zValue is missing'') \<or>
         (\<exists>s'. accumulate lib opts gtp prop wt c s q = Inr s')"
  using assms accumulate_None[of q] accumulate_Some[of _ q]
  by (cases "zValue_of prop q") blast+

lemma accumulate2_missing:
  assumes "\<forall>q\<in>set xs. properties q \<noteq> None" "properties p \<noteq> None" "zValue_of prop p = None"
  shows "featureEach (accumulate2 lib opts gtp prop wt c) acc (xs @ p # ys)
           = Inl (Error ''zValue is missing'')"
proof (rule featureEach_raise_at)
  show "accumulate2 lib opts gtp prop wt c s q = Inl (Error ''zValue is missing'') \<or>
      (\<exists>s'. accumulate2 lib opts gtp prop wt c s q = Inr s')" if "q \<in> set xs" for s q
    using assms(1) that by (intro accumulate2_step_cases) blast
  show "accumulate2 lib opts gtp prop wt c s p = Inl (Error ''zValue is missing'')" for s
    using assms(2,3) by (rule accumulate2_None)
qed

lemma accumulate_missing:
  assumes "\<forall>q\<in>set xs. properties q \<noteq> None" "properties p \<noteq> None" "zValue_of prop p = None"
  shows "featureEach (accumulate lib opts gtp prop wt c) acc (xs @ p # ys)
           = Inl (Error ''zValue is missing'')"
proof (rule featureEach_raise_at)
  show "accumulate lib opts gtp prop wt c s q = Inl (Error ''zValue is missing'') \<or>
      (\<exists>s'. accumulate lib opts gtp prop wt c s q = Inr s')" if "q \<in> set xs" for s q
    using assms(1) that by (intro accumulate_step_cases) blast
  show "accumulate lib opts gtp prop wt c s p = Inl (Error ''zValue is missing'')" for s
    using assms(2,3) by (rule accumulate_None)
qed


lemma accumulate_total:
  assumes "\<And>p. p \<in> set pts \<Longrightarrow> zValue_of prop p \<noteq> None"
  shows "\<exists>s'. featureEach (accumulate lib opts gtp prop wt c) acc pts = Inr s'"
  using accumulate_Some assms by (rule featureEach_total)

lemma collectionOf_ok:
  "list_all (\<lambda>f. gtype (geometry f) = t) pts \<Longrightarrow> collectionOf pts t name = Inr ()"
  by (induction pts) simp_all

lemma collectionOf_remove:
  "gtype (geometry p) = t \<Longrightarrow> collectionOf (xs @ p # ys) t name = collectionOf (xs @ ys) t name"
  by (induction xs) simp_all

lemma interpolate2_checked:
  assumes "oa \<noteq> OptNotObject"
    and "list_all (\<lambda>f. gtype (geometry f) = ''Point'') pts"
    and "\<not> weight_invalid (weight (options_or_empty oa))"
  shows "interpolate2 lib (Some pts) grid oa =
     featureEach
       (push_result
          (interpolate2_cell lib (options_or_empty oa)
             (string_or (gridType (options_or_empty oa)) ''square'')
             (string_or (property (options_or_empty oa)) ''elevation'')
             (weight_or_1 (weight (options_or_empty oa))) pts))
       [] grid"
  using assms by (simp add: interpolate2_def collectionOf_ok Let_def)

lemma interpolate_checked:
  assumes "oa \<noteq> OptNotObject"
    and "list_all (\<lambda>f. gtype (geometry f) = ''Point'') pts"
    and "js_truthy cellSize"
    and "\<not> weight_invalid (weight (options_or_empty oa))"
    and "bbox lib (Some pts) = Inr box"
    and "make_grid lib (string_or (gridType (options_or_empty oa)) ''square'') box cellSize
           (OptObject (options_or_empty oa)) = Inr grid"
  shows "interpolate lib (Some pts) cellSize oa =
     featureEach
       (push_result
          (interpolate_cell lib (options_or_empty oa)
             (string_or (gridType (options_or_empty oa)) ''square'')
             (string_or (property (options_or_empty oa)) ''elevation'')
             (weight_or_1 (weight (options_or_empty oa))) pts))
       [] grid"
  using assms by (simp add: interpolate_def collectionOf_ok Let_def)




lemma assign_color_cases:
  "assign_color lib opts v nf = Inl TypeError \<or> (\<exists>y. assign_color lib opts v nf = Inr y)"
  by (simp add: assign_color_def split: option.splits)


section \<open>Evaluating the library on a line\<close>

lemma demo_sel:
  "gridType (demo_options p) = None" "property (demo_options p) = Some p"
  "weight (demo_options p) = None" "breakProperties (demo_options p) = Some demo_table"
  "colorProperty (demo_options p) = Some ''color''" "valid (demo_options p) = Some (Fin 1000)"
  by (simp_all add: demo_options_def)

lemma line_dist_0_1 [simp]:
  "line_distance binary64 (line_cell 0) (line_point 1 m) opts = Fin 1"
  by (simp add: line_distance_def line_cell_def line_point_def xcoord_def js_ops binary64_small)

lemma zValue_line_point:
  "m prop = Some z \<Longrightarrow> zValue_of prop (line_point x m) = Some z"
  by (simp add: zValue_of_def get_property_def line_point_def)

lemma zValue_line_point_None:
  "m prop = None \<Longrightarrow> prop \<notin> set object_prototype_keys \<Longrightarrow>
   zValue_of prop (line_point x m) = None"
  by (simp add: zValue_of_def get_property_def line_point_def)

lemma properties_line_point: "properties (line_point x m) = Some m"
  by (simp add: line_point_def)

lemma gtype_line_point: "gtype (geometry (line_point x m)) = ''Point''"
  by (simp add: line_point_def)

lemma weight_raw_1: "js_div binary64 (Fin 1) (rounded_pow binary64 1 1) = Fin 1"
  by (simp add: js_ops binary64_small)

lemma line_bbox_single:
  "line_bbox (Some [line_point x m]) = Inr [Fin x, Fin x]"
  by (simp add: line_bbox_def xcoord_def line_point_def js_min_def js_max_def)

lemma line_grid_single: "line_grid g [Fin x, Fin x] cs oa = Inr g"
  by (simp add: line_grid_def)

lemma make_grid_square: "make_grid lib ''square'' box cs oa = squareGrid lib box cs oa"
  by (simp add: make_grid_def)

lemma empty_sel:
  "gridType empty_options = None" "property empty_options = None"
  "weight empty_options = None" "breakProperties empty_options = None"
  "colorProperty empty_options = None" "valid empty_options = None"
  by (simp_all add: empty_options_def)

lemma acc2_step_1:
  assumes "m prop = Some z" "js_lt (js_abs z) (Fin 1000)"
  shows "accumulate2 (line_lib binary64 g) (demo_options q) gtp prop (Fin 1) (line_cell 0)
            (zw, sw) (line_point 1 m)
         = Inr (js_add binary64 zw (js_mul binary64 (Fin 1) z), js_add binary64 sw (Fin 1))"
  using assms
  by (simp add: accumulate2_def zValue_line_point properties_line_point demo_sel
      gridPoint_of_def line_lib_sel weight_raw_1 Let_def)

lemma acc_step_1:
  assumes "m prop = Some z"
  shows "accumulate (line_lib binary64 g) (demo_options q) gtp prop (Fin 1) (line_cell 0)
            (zw, sw) (line_point 1 m)
         = Inr (js_add binary64 zw (js_mul binary64 (Fin 1) z), js_add binary64 sw (Fin 1))"
  using assms
  by (simp add: accumulate_def zValue_line_point properties_line_point demo_sel
      gridPoint_of_def line_lib_sel weight_raw_1 Let_def)


lemma line_dist_0_0:
  "line_distance binary64 (line_cell 0) (line_point 0 m) opts = Fin 0"
  by (simp add: line_distance_def line_cell_def line_point_def xcoord_def js_ops binary64_small)

lemma line_bbox_0_1:
  "line_bbox (Some [line_point 0 m, line_point 1 m']) = Inr [Fin 0, Fin 1]"
  by (simp add: line_bbox_def xcoord_def line_point_def js_min_def js_max_def)

lemma line_grid_0_1: "line_grid g [Fin 0, Fin 1] cs oa = Inr g"
  by (simp add: line_grid_def)


section \<open>The classification schemes\<close>

text \<open>
  C3. For the pressure scheme the value 969 is not below 969, so it falls through to
  \<open>ceil((v - 969) / 3) - 1\<close>, which is \<open>-1\<close>: an index that no table has, where the
  specification names bucket 0; a cell interpolated from one sample of value 969 is
  returned without a colour. The other five edge values are classified as stated: 1017.1
  to bucket 16, 100 and 100.1 under \<open>rhu\<close> to bucket 9, 0.2 under \<open>pre1h\<close> to bucket 0
  and 50.1 to bucket 8.
\<close>

theorem edge_values_classified:
  "order_interpolate2 binary64 ''prs'' (Fin 969) = Fin (- 1) \<and>
   table_get (tbl :: bucket list) (Fin (- 1)) = None \<and>
   interpolate2 (line_lib binary64 []) (Some [line_point 1 [''prs'' \<mapsto> Fin 969]])
       [line_cell 0] (OptObject (demo_options ''prs''))
     = Inr [set_property (line_cell 0) ''prs'' (Some (JNum (Fin 969)))] \<and>
   order_interpolate2 binary64 ''prs'' (binary64 1017.1) = Fin 16 \<and>
   order_interpolate2 binary64 ''rhu'' (Fin 100) = Fin 9 \<and>
   order_interpolate2 binary64 ''rhu'' (binary64 100.1) = Fin 9 \<and>
   order_interpolate2 binary64 ''pre1h'' (binary64 0.2) = Fin 0 \<and>
   order_interpolate2 binary64 ''pre1h'' (binary64 50.1) = Fin 8"
proof -
  let ?L = "line_lib binary64 []"
  let ?O = "demo_options ''prs''"
  let ?p = "line_point 1 [''prs'' \<mapsto> Fin 969]"
  have ord: "order_interpolate2 binary64 ''prs'' (Fin 969) = Fin (- 1)"
    by (simp add: order_interpolate2_def order_prs_def js_ops binary64_small)
  have miss: "table_get t (Fin (- 1)) = None" for t :: "bucket list"
    by (simp add: table_get_def)
  have loop: "featureEach (accumulate2 ?L ?O ''square'' ''prs'' (Fin 1) (line_cell 0))
      (Fin 0, Fin 0) [?p] = Inr (Fin 969, Fin 1)"
    by (simp add: acc2_step_1 js_ops binary64_small)
  have q: "js_div binary64 (Fin 969) (Fin 1) = Fin 969"
    by (simp add: js_ops binary64_small)
  have c2: "interpolate2_cell ?L ?O ''square'' ''prs'' (Fin 1) [?p] (line_cell 0)
      = Inr (set_property (line_cell 0) ''prs'' (Some (JNum (Fin 969))))"
    unfolding interpolate2_cell_def loop
    by (simp add: line_lib_sel q assign_color2_def demo_sel ord miss)
  have h1: "OptObject ?O \<noteq> OptNotObject" by simp
  have h2: "list_all (\<lambda>f. gtype (geometry f) = ''Point'') [?p]"
    by (simp add: gtype_line_point)
  have h3: "\<not> weight_invalid (weight (options_or_empty (OptObject ?O)))"
    by (simp add: demo_sel)
  have run: "interpolate2 ?L (Some [?p]) [line_cell 0] (OptObject ?O)
      = Inr [set_property (line_cell 0) ''prs'' (Some (JNum (Fin 969)))]"
    unfolding interpolate2_checked[OF h1 h2 h3]
    using c2 by (simp add: demo_sel push_result_Inr)
  have rest: "order_interpolate2 binary64 ''prs'' (binary64 1017.1) = Fin 16 \<and>
   order_interpolate2 binary64 ''rhu'' (Fin 100) = Fin 9 \<and>
   order_interpolate2 binary64 ''rhu'' (binary64 100.1) = Fin 9 \<and>
   order_interpolate2 binary64 ''pre1h'' (binary64 0.2) = Fin 0 \<and>
   order_interpolate2 binary64 ''pre1h'' (binary64 50.1) = Fin 8"
    by (simp add: order_interpolate2_def order_prs_def order_rhu_def order_pre1h_def js_ops
        binary64_small b64_literals)
  show ?thesis using ord miss[of tbl] run rest by simp
qed

text \<open>
  C6. The bucket index of \<open>interpolate\<close> and the \<open>tem\<close> scheme of \<open>interpolate2\<close> are
  the same function of the interpolated value, and both are the two-branch rule of the
  specification.
\<close>

theorem tem_scheme_is_interpolate_rule:
  "order_interpolate fl v = order_interpolate2 fl ''tem'' v \<and>
   order_interpolate2 fl ''tem'' v = tem_rule_spec fl v"
  by (simp add: order_interpolate_def order_interpolate2_def order_tem_def tem_rule_spec_def)

lemma winSMax_values:
  "order_winSMax binary64 (Fin 0) = Fin 0" "order_winSMax binary64 (Fin 3) = Fin 1"
  "order_winSMax binary64 (Fin 6) = Fin 3" "order_winSMax binary64 (Fin 9) = Fin 4"
  "order_winSMax binary64 (Fin 12) = Fin 5" "order_winSMax binary64 (Fin 15) = Fin 6"
  "order_winSMax binary64 (Fin 18) = Fin 7" "order_winSMax binary64 (Fin 22) = Fin 8"
  "order_winSMax binary64 (Fin 25) = Fin 9" "order_winSMax binary64 (Fin 30) = Fin 10"
  "order_winSMax binary64 (Fin 35) = Fin 11" "order_winSMax binary64 (Fin 40) = Fin 12"
  "order_winSMax binary64 (Fin 45) = Fin 13" "order_winSMax binary64 (Fin 50) = Fin 14"
  "order_winSMax binary64 (Fin 60) = Fin 15" "order_winSMax binary64 (Fin 70) = Fin 16"
  by (simp_all add: order_winSMax_def b64_literals)

lemma winSMax_in:
  "order_winSMax fl v \<in> {Fin 0, Fin 1, Fin 3, Fin 4, Fin 5, Fin 6, Fin 7, Fin 8, Fin 9, Fin 10,
      Fin 11, Fin 12, Fin 13, Fin 14, Fin 15, Fin 16}"
  by (simp add: order_winSMax_def)

lemma winSMax_range:
  "range (order_winSMax binary64) = {Fin 0, Fin 1, Fin 3, Fin 4, Fin 5, Fin 6, Fin 7, Fin 8, Fin 9,
      Fin 10, Fin 11, Fin 12, Fin 13, Fin 14, Fin 15, Fin 16}"
proof
  show "range (order_winSMax binary64) \<subseteq> {Fin 0, Fin 1, Fin 3, Fin 4, Fin 5, Fin 6, Fin 7, Fin 8,
      Fin 9, Fin 10, Fin 11, Fin 12, Fin 13, Fin 14, Fin 15, Fin 16}"
    using winSMax_in by blast
  have "order_winSMax binary64 x \<in> range (order_winSMax binary64)" for x by simp
  from this[of "Fin 0"] this[of "Fin 3"] this[of "Fin 6"] this[of "Fin 9"] this[of "Fin 12"]
    this[of "Fin 15"] this[of "Fin 18"] this[of "Fin 22"] this[of "Fin 25"] this[of "Fin 30"]
    this[of "Fin 35"] this[of "Fin 40"] this[of "Fin 45"] this[of "Fin 50"] this[of "Fin 60"]
    this[of "Fin 70"]
  show "{Fin 0, Fin 1, Fin 3, Fin 4, Fin 5, Fin 6, Fin 7, Fin 8, Fin 9, Fin 10, Fin 11, Fin 12,
      Fin 13, Fin 14, Fin 15, Fin 16} \<subseteq> range (order_winSMax binary64)"
    unfolding winSMax_values by blast
qed


text \<open>
  C10. The wind scheme never yields bucket 2, whatever the value and the rounding: the
  second test against 5.5 repeats the first. With the rounding of binary64 the indices it
  does yield are exactly 0, 1 and 3 to 16.
\<close>

theorem winSMax_never_bucket_2:
  "order_interpolate2 fl ''winSMax'' v \<noteq> Fin 2 \<and>
   range (order_interpolate2 binary64 ''winSMax'') =
     {Fin 0, Fin 1, Fin 3, Fin 4, Fin 5, Fin 6, Fin 7, Fin 8, Fin 9, Fin 10, Fin 11, Fin 12,
      Fin 13, Fin 14, Fin 15, Fin 16}"
proof -
  have eq: "order_interpolate2 fl ''winSMax'' = order_winSMax fl" for fl
    by (rule ext) (simp add: order_interpolate2_def)
  have "order_winSMax fl v \<noteq> Fin 2" using winSMax_in[of fl v] by auto
  then show ?thesis unfolding eq winSMax_range by simp
qed

section \<open>The validity filter of interpolate2\<close>

text \<open>
  C2. A sample whose absolute value is at least \<open>options.valid\<close> contributes nothing:
  \<open>interpolate2\<close> returns the same result with the sample and without it, wherever the
  sample stands in the collection.
\<close>

theorem filtered_sample_removable:
  assumes "gtype (geometry p) = ''Point''"
    and "zValue_of (string_or (property (options_or_empty oa)) ''elevation'') p = Some z"
    and "valid (options_or_empty oa) = Some t"
    and "js_ge (js_abs z) t"
  shows "interpolate2 lib (Some (xs @ p # ys)) grid oa = interpolate2 lib (Some (xs @ ys)) grid oa"
proof -
  let ?opts = "options_or_empty oa"
  let ?pname = "string_or (property ?opts) ''elevation''"
  have nv: "\<not> passes_valid z (valid ?opts)"
    using assms(3,4) by (simp add: js_ge_not_lt)
  have skip: "accumulate2 lib ?opts gtp ?pname wt c acc p = Inr acc" for gtp wt c acc
    using assms(2) nv by (rule accumulate2_filtered)
  have cell: "interpolate2_cell lib ?opts gtp ?pname wt (xs @ p # ys) =
      interpolate2_cell lib ?opts gtp ?pname wt (xs @ ys)" for gtp wt
    by (rule ext) (simp add: interpolate2_cell_def featureEach_skip[of "accumulate2 lib ?opts gtp ?pname wt _", OF skip])
  show ?thesis
    using assms(1)
    by (simp add: interpolate2_def collectionOf_remove Let_def cell split: sum.splits)
qed

theorem filtered_sample_removable_witness:
  "js_ge (js_abs (Fin 9999)) (Fin 1000) \<and>
   interpolate2 (line_lib binary64 []) (Some [line_point 1 [''tem'' \<mapsto> Fin 9999]])
       [line_cell 0] (OptObject (demo_options ''tem''))
     = interpolate2 (line_lib binary64 []) (Some []) [line_cell 0] (OptObject (demo_options ''tem''))"
proof -
  have a: "gtype (geometry (line_point 1 [''tem'' \<mapsto> Fin 9999])) = ''Point''"
    by (rule gtype_line_point)
  have b: "zValue_of (string_or (property (options_or_empty (OptObject (demo_options ''tem''))))
              ''elevation'') (line_point 1 [''tem'' \<mapsto> Fin 9999]) = Some (Fin 9999)"
    by (simp add: demo_sel zValue_line_point)
  have c: "valid (options_or_empty (OptObject (demo_options ''tem''))) = Some (Fin 1000)"
    by (simp add: demo_sel)
  have d: "js_ge (js_abs (Fin 9999)) (Fin 1000)"
    by (simp add: js_ge_def)
  show ?thesis
    using d filtered_sample_removable[OF a b c d, of "line_lib binary64 []" "[]" "[]" "[line_cell 0]"]
    by simp
qed

section \<open>Samples that are all filtered out\<close>

lemma featureEach_push_all_fail:
  assumes "grid \<noteq> []" "\<And>c. f c = Inl e"
  shows "featureEach (push_result f) acc grid = Inl e"
  using assms by (cases grid) (simp_all add: push_result_Inl)





section \<open>A missing value\<close>

lemma zValue_missing:
  assumes "properties p = Some m" "m prop = None" "prop \<notin> set object_prototype_keys"
    and "length (coordinates (geometry p)) \<le> 2"
  shows "zValue_of prop p = None"
  using assms by (simp add: zValue_of_def get_property_def)

lemma interpolate2_no_cells:
  assumes "oa \<noteq> OptNotObject"
    and "list_all (\<lambda>f. gtype (geometry f) = ''Point'') pts"
    and "\<not> weight_invalid (weight (options_or_empty oa))"
  shows "interpolate2 lib (Some pts) [] oa = Inr []"
  unfolding interpolate2_checked[OF assms] by simp

text \<open>
  C5, as the code has it. The value of a sample is looked up inside the loop over the
  samples, which runs once for every grid cell. So, the checks of the arguments passed:
  over a grid without cells both functions return an empty collection, whatever the
  samples; over a grid with at least one cell, a sample whose properties object has no
  attribute of the configured name, own or inherited from \<open>Object.prototype\<close>, and whose
  coordinates have no third component, makes the call raise \<open>zValue is missing\<close>, the
  samples before it all having a properties object. The half on \<open>interpolate2\<close> needs
  nothing of \<open>interpolate\<close>, and the grid of \<open>interpolate\<close> is the one the library
  builds.
\<close>

theorem missing_value_raises:
  fixes lib :: "'g turf"
  assumes "oa \<noteq> OptNotObject" and "opts = options_or_empty oa"
    and "prop = string_or (property opts) ''elevation''"
    and "gtp = string_or (gridType opts) ''square''"
    and "list_all (\<lambda>f. gtype (geometry f) = ''Point'') pts"
    and "\<not> weight_invalid (weight opts)"
  shows "interpolate2 lib (Some pts) [] oa = Inr [] \<and>
         (js_truthy cellSize \<and> bbox lib (Some pts) = Inr box \<and>
          make_grid lib gtp box cellSize (OptObject opts) = Inr []
          \<longrightarrow> interpolate lib (Some pts) cellSize oa = Inr []) \<and>
         (pts = xs @ p # ys \<and> (\<forall>q\<in>set xs. properties q \<noteq> None) \<and>
          properties p = Some m \<and> m prop = None \<and> prop \<notin> set object_prototype_keys \<and>
          length (coordinates (geometry p)) \<le> 2 \<and> grid \<noteq> []
          \<longrightarrow> interpolate2 lib (Some pts) grid oa = Inl (Error ''zValue is missing'')) \<and>
         (pts = xs @ p # ys \<and> (\<forall>q\<in>set xs. properties q \<noteq> None) \<and>
          properties p = Some m \<and> m prop = None \<and> prop \<notin> set object_prototype_keys \<and>
          length (coordinates (geometry p)) \<le> 2 \<and>
          js_truthy cellSize \<and> bbox lib (Some pts) = Inr box \<and>
          make_grid lib gtp box cellSize (OptObject opts) = Inr grid1 \<and> grid1 \<noteq> []
          \<longrightarrow> interpolate lib (Some pts) cellSize oa = Inl (Error ''zValue is missing''))"
proof (intro conjI impI)
  show "interpolate2 lib (Some pts) [] oa = Inr []"
    using assms(1,5,6) unfolding assms(2) by (rule interpolate2_no_cells)
next
  assume "js_truthy cellSize \<and> bbox lib (Some pts) = Inr box \<and>
      make_grid lib gtp box cellSize (OptObject opts) = Inr []"
  then show "interpolate lib (Some pts) cellSize oa = Inr []"
    using interpolate_checked[OF assms(1), of pts cellSize lib box "[]"] assms(2-6) by simp
next
  assume h: "pts = xs @ p # ys \<and> (\<forall>q\<in>set xs. properties q \<noteq> None) \<and>
      properties p = Some m \<and> m prop = None \<and> prop \<notin> set object_prototype_keys \<and>
      length (coordinates (geometry p)) \<le> 2 \<and> grid \<noteq> []"
  then have split: "pts = xs @ p # ys" and before: "\<forall>q\<in>set xs. properties q \<noteq> None"
    and obj: "properties p = Some m" and ne: "grid \<noteq> []"
    by blast+
  have z: "zValue_of prop p = None"
    using h by (intro zValue_missing[of p m]) simp_all
  have pp: "properties p \<noteq> None" using obj by simp
  have cell: "interpolate2_cell lib opts gtp prop wt pts c = Inl (Error ''zValue is missing'')"
    for wt c
    unfolding split by (simp add: interpolate2_cell_def accumulate2_missing[OF before pp z])
  show "interpolate2 lib (Some pts) grid oa = Inl (Error ''zValue is missing'')"
    using interpolate2_checked[OF assms(1), of pts lib grid] assms(2-6)
      featureEach_push_all_fail[OF ne, of "interpolate2_cell lib opts gtp prop
        (weight_or_1 (weight opts)) pts" "Error ''zValue is missing''" "[]"] cell
    by simp
next
  assume h: "pts = xs @ p # ys \<and> (\<forall>q\<in>set xs. properties q \<noteq> None) \<and>
      properties p = Some m \<and> m prop = None \<and> prop \<notin> set object_prototype_keys \<and>
      length (coordinates (geometry p)) \<le> 2 \<and>
      js_truthy cellSize \<and> bbox lib (Some pts) = Inr box \<and>
      make_grid lib gtp box cellSize (OptObject opts) = Inr grid1 \<and> grid1 \<noteq> []"
  then have split: "pts = xs @ p # ys" and before: "\<forall>q\<in>set xs. properties q \<noteq> None"
    and obj: "properties p = Some m" and ne: "grid1 \<noteq> []"
    and cs: "js_truthy cellSize" and bb: "bbox lib (Some pts) = Inr box"
    and mk: "make_grid lib gtp box cellSize (OptObject opts) = Inr grid1"
    by blast+
  have z: "zValue_of prop p = None"
    using h by (intro zValue_missing[of p m]) simp_all
  have pp: "properties p \<noteq> None" using obj by simp
  have cell: "interpolate_cell lib opts gtp prop wt pts c = Inl (Error ''zValue is missing'')"
    for wt c
    unfolding split by (simp add: interpolate_cell_def accumulate_missing[OF before pp z])
  show "interpolate lib (Some pts) cellSize oa = Inl (Error ''zValue is missing'')"
    using interpolate_checked[OF assms(1), of pts cellSize lib box grid1] assms(2-6) cs bb mk
      featureEach_push_all_fail[OF ne, of "interpolate_cell lib opts gtp prop
        (weight_or_1 (weight opts)) pts" "Error ''zValue is missing''" "[]"] cell
    by simp
qed

text \<open>
  Two samples, the first with the value 7 under \<open>elevation\<close> and the second without
  properties of that name, and one grid cell: both functions raise. Over a grid without
  cells both return the empty collection.
\<close>

theorem missing_value_raises_witness:
  "interpolate2 (line_lib binary64 [])
       (Some [line_point 0 [''elevation'' \<mapsto> Fin 7], line_point 1 Map.empty]) [line_cell 0]
       OptAbsent = Inl (Error ''zValue is missing'') \<and>
   interpolate (line_lib binary64 [line_cell 0])
       (Some [line_point 0 [''elevation'' \<mapsto> Fin 7], line_point 1 Map.empty]) (Some (Fin 1))
       OptAbsent = Inl (Error ''zValue is missing'') \<and>
   interpolate2 (line_lib binary64 [])
       (Some [line_point 0 [''elevation'' \<mapsto> Fin 7], line_point 1 Map.empty]) []
       OptAbsent = Inr [] \<and>
   interpolate (line_lib binary64 [])
       (Some [line_point 0 [''elevation'' \<mapsto> Fin 7], line_point 1 Map.empty]) (Some (Fin 1))
       OptAbsent = Inr []"
proof -
  let ?LE = "line_lib binary64 [] :: jsnum turf"
  let ?L = "line_lib binary64 [line_cell 0]"
  let ?a = "line_point 0 [''elevation'' \<mapsto> Fin 7]"
  let ?p = "line_point 1 Map.empty"
  have h1: "OptAbsent \<noteq> OptNotObject" by simp
  have h2: "empty_options = options_or_empty OptAbsent" by simp
  have h3: "''elevation'' = string_or (property empty_options) ''elevation''"
    by (simp add: empty_sel)
  have h4: "''square'' = string_or (gridType empty_options) ''square''"
    by (simp add: empty_sel)
  have h5: "list_all (\<lambda>f. gtype (geometry f) = ''Point'') [?a, ?p]"
    by (simp add: gtype_line_point)
  have h6: "\<not> weight_invalid (weight empty_options)" by (simp add: empty_sel)
  have miss: "[?a, ?p] = [?a] @ ?p # [] \<and> (\<forall>q\<in>set [?a]. properties q \<noteq> None) \<and>
      properties ?p = Some Map.empty \<and> (Map.empty :: string \<rightharpoonup> jsnum) ''elevation'' = None \<and>
      ''elevation'' \<notin> set object_prototype_keys \<and> length (coordinates (geometry ?p)) \<le> 2"
    by (simp add: properties_line_point object_prototype_keys_def) (simp add: line_point_def)
  have cs: "js_truthy (Some (Fin 1))" by simp
  have bb: "bbox ?L (Some [?a, ?p]) = Inr [Fin 0, Fin 1]"
    by (simp add: line_lib_sel line_bbox_0_1)
  have bb0: "bbox ?LE (Some [?a, ?p]) = Inr [Fin 0, Fin 1]"
    by (simp add: line_lib_sel line_bbox_0_1)
  have mk: "make_grid ?L ''square'' [Fin 0, Fin 1] (Some (Fin 1)) (OptObject empty_options)
      = Inr [line_cell 0]"
    by (simp add: make_grid_square line_lib_sel line_grid_0_1)
  have mk0: "make_grid ?LE ''square'' [Fin 0, Fin 1] (Some (Fin 1)) (OptObject empty_options)
      = Inr []"
    unfolding make_grid_square line_lib_sel by (rule line_grid_0_1)
  have ne: "[line_cell 0] \<noteq> []" by simp
  have a: "interpolate2 ?LE (Some [?a, ?p]) [line_cell 0] OptAbsent
      = Inl (Error ''zValue is missing'')"
    using missing_value_raises[OF h1 h2 h3 h4 h5 h6, where lib = ?LE and xs = "[?a]"
        and p = ?p and ys = "[]" and m = Map.empty and grid = "[line_cell 0]"] miss ne
    by blast
  have b: "interpolate ?L (Some [?a, ?p]) (Some (Fin 1)) OptAbsent
      = Inl (Error ''zValue is missing'')"
    using missing_value_raises[OF h1 h2 h3 h4 h5 h6, where lib = ?L and xs = "[?a]"
        and p = ?p and ys = "[]" and m = Map.empty and cellSize = "Some (Fin 1)"
        and box = "[Fin 0, Fin 1]" and ?grid1.0 = "[line_cell 0]"] miss cs bb mk ne
    by blast
  have c: "interpolate2 ?LE (Some [?a, ?p]) [] OptAbsent = Inr []"
    using missing_value_raises[OF h1 h2 h3 h4 h5 h6, where lib = ?LE] by blast
  have d: "interpolate ?LE (Some [?a, ?p]) (Some (Fin 1)) OptAbsent = Inr []"
    using missing_value_raises[OF h1 h2 h3 h4 h5 h6, where lib = ?LE
        and cellSize = "Some (Fin 1)" and box = "[Fin 0, Fin 1]"] cs bb0 mk0
    by blast
  show ?thesis using a b c d by simp
qed

text \<open>
  C5, as stated, fails over a grid without cells: the loop over the samples never runs, and
  both functions return an empty collection for a sample that has no value.
\<close>

theorem missing_value_empty_grid_counterexample:
  "zValue_of ''elevation'' (line_point 1 Map.empty) = None \<and>
   properties (line_point 1 Map.empty) = Some Map.empty \<and>
   length (coordinates (geometry (line_point 1 Map.empty))) = 2 \<and>
   interpolate2 (line_lib binary64 []) (Some [line_point 1 Map.empty]) [] OptAbsent = Inr [] \<and>
   interpolate (line_lib binary64 []) (Some [line_point 1 Map.empty]) (Some (Fin 1)) OptAbsent
     = Inr []"
proof -
  let ?L = "line_lib binary64 []"
  let ?p = "line_point 1 Map.empty"
  have h1: "OptAbsent \<noteq> OptNotObject" by simp
  have h2: "list_all (\<lambda>f. gtype (geometry f) = ''Point'') [?p]"
    by (simp add: gtype_line_point)
  have h3: "\<not> weight_invalid (weight (options_or_empty OptAbsent))"
    by (simp add: empty_sel)
  have h8: "js_truthy (Some (Fin 1))" by simp
  have h9: "bbox ?L (Some [?p]) = Inr [Fin 1, Fin 1]"
    by (simp add: line_lib_sel line_bbox_single)
  have h10: "make_grid ?L (string_or (gridType (options_or_empty OptAbsent)) ''square'')
      [Fin 1, Fin 1] (Some (Fin 1)) (OptObject (options_or_empty OptAbsent)) = Inr []"
    by (simp add: empty_sel make_grid_square line_lib_sel line_grid_single)
  have a: "interpolate2 ?L (Some [?p]) [] OptAbsent = Inr []"
    unfolding interpolate2_checked[OF h1 h2 h3] by simp
  have b: "interpolate ?L (Some [?p]) (Some (Fin 1)) OptAbsent = Inr []"
    unfolding interpolate_checked[OF h1 h2 h8 h3 h9 h10] by simp
  have z: "zValue_of ''elevation'' ?p = None"
    by (rule zValue_line_point_None) (simp_all add: object_prototype_keys_def)
  show ?thesis using a b z by (simp add: line_point_def)
qed

section \<open>A bucket index outside the table\<close>








section \<open>A sample at the position of a grid cell\<close>

lemma nonfinite_add: "nonfinite x \<Longrightarrow> nonfinite (js_add fl x y)"
  by (cases x; cases y) (simp_all add: nonfinite_def js_add_def)

lemma sum_weights_stuck: "sw = PInf \<or> sw = NaN \<Longrightarrow> js_add fl sw w = PInf \<or> js_add fl sw w = NaN"
  by (cases w) (auto simp: js_add_def)

lemma add_PInf: "js_add fl sw PInf = PInf \<or> js_add fl sw PInf = NaN"
  by (cases sw) (simp_all add: js_add_def)

lemma seed_nonfinite: "nonfinite (js_add fl z (js_mul fl PInf z))"
proof (cases z)
  case (Fin r)
  then show ?thesis by (cases "r = 0"; cases "0 < r") (simp_all add: nonfinite_def js_add_def js_mul_def)
qed (simp_all add: nonfinite_def js_add_def js_mul_def)

lemma weight_at_zero:
  assumes "0 < e"
  shows "js_div fl (Fin 1) (js_pow pw (Fin 0) (Fin e)) = PInf"
  using assms by (simp add: js_div_def)

lemma stuck_quotient: "stuck (zw, sw) \<Longrightarrow> js_div fl zw sw = NaN"
  by (cases zw; cases sw) (auto simp: stuck_def nonfinite_def js_div_def)

lemma accumulate_coincident:
  assumes "0 < e" "zValue_of prop q = Some z"
    and "distance lib (gridPoint_of lib gtp c) q opts = Fin 0"
  shows "\<exists>st'. accumulate lib opts gtp prop (Fin e) c st q = Inr st' \<and> stuck st'"
  using assms seed_nonfinite[of "rnd lib" z] add_PInf[of "rnd lib" "snd st"]
    zValue_Some_properties[OF assms(2)] weight_at_zero[OF assms(1), of "rnd lib" "pow_approx lib"]
  by (simp add: accumulate_def Let_def stuck_def del: js_pow.simps)

lemma accumulate_stuck:
  assumes "0 < e" "zValue_of prop q = Some z" "stuck st"
  shows "\<exists>st'. accumulate lib opts gtp prop (Fin e) c st q = Inr st' \<and> stuck st'"
proof (cases "distance lib (gridPoint_of lib gtp c) q opts = Fin 0")
  case True
  with assms(1,2) show ?thesis by (rule accumulate_coincident)
next
  case False
  then show ?thesis
    using assms(2,3) nonfinite_add[of "fst st" "rnd lib"]
      sum_weights_stuck[of "snd st" "rnd lib"] zValue_Some_properties[OF assms(2)]
    by (simp add: accumulate_def Let_def stuck_def del: js_pow.simps)
qed

lemma loop_stuck:
  assumes "0 < e"
    and "\<forall>q\<in>set pts. zValue_of prop q \<noteq> None" "stuck st"
  shows "\<exists>st'. featureEach (accumulate lib opts gtp prop (Fin e) c) st pts = Inr st' \<and> stuck st'"
  using assms(2,3)
proof (induction pts arbitrary: st)
  case Nil
  then show ?case by simp
next
  case (Cons q pts)
  obtain z where z: "zValue_of prop q = Some z" using Cons.prems(1) by auto
  obtain st1 where st1: "accumulate lib opts gtp prop (Fin e) c st q = Inr st1" "stuck st1"
    using accumulate_stuck[OF assms(1) z Cons.prems(2)] by blast
  have rest: "\<forall>q\<in>set pts. zValue_of prop q \<noteq> None" using Cons.prems(1) by simp
  show ?case using Cons.IH[OF rest st1(2)] st1(1) by simp
qed

lemma loop_coincident:
  assumes "0 < e"
    and "\<forall>q\<in>set pts. zValue_of prop q \<noteq> None"
    and "p \<in> set pts" "distance lib (gridPoint_of lib gtp c) p opts = Fin 0"
  shows "\<exists>st'. featureEach (accumulate lib opts gtp prop (Fin e) c) st pts = Inr st' \<and> stuck st'"
  using assms(2,3)
proof (induction pts arbitrary: st)
  case Nil
  then show ?case by simp
next
  case (Cons q pts)
  obtain z where z: "zValue_of prop q = Some z" using Cons.prems(1) by auto
  have rest: "\<forall>q\<in>set pts. zValue_of prop q \<noteq> None" using Cons.prems(1) by simp
  show ?case
  proof (cases "distance lib (gridPoint_of lib gtp c) q opts = Fin 0")
    case True
    obtain st1 where st1: "accumulate lib opts gtp prop (Fin e) c st q = Inr st1" "stuck st1"
      using accumulate_coincident[OF assms(1) z True] by blast
    show ?thesis using loop_stuck[OF assms(1) rest st1(2)] st1(1) by simp
  next
    case False
    then have "q \<noteq> p" using assms(4) by auto
    then have mem: "p \<in> set pts" using Cons.prems(2) by simp
    obtain st1 where st1: "accumulate lib opts gtp prop (Fin e) c st q = Inr st1"
      using accumulate_Some[OF z] by blast
    show ?thesis using Cons.IH[OF rest mem] st1 by simp
  qed
qed

lemma order_interpolate_of_NaN: "order_interpolate fl NaN = NaN"
  by (simp add: order_interpolate_def js_add_def js_div_def)

lemma assign_color_of_NaN: "assign_color lib opts NaN nf = Inl TypeError"
  by (simp add: assign_color_def order_interpolate_of_NaN table_get_def split: option.splits)

text \<open>
  C4. The code sets \<open>zw\<close> to the value of a sample at distance 0 and then goes on to
  weight that sample by \<open>1 / Math.pow(0, weight)\<close>, which is \<open>Infinity\<close> for a
  positive exponent. Both sums stop being finite, so the quotient of the cell is \<open>NaN\<close>,
  not the value of the coincident sample, whatever the other samples and their order; and
  \<open>interpolate\<close> ends in a \<open>TypeError\<close>, since no bucket has the index \<open>NaN\<close>.
\<close>

theorem coincident_sample_gives_NaN:
  fixes lib :: "'g turf"
  assumes "rnd lib 0 = Fin 0"
    and "oa \<noteq> OptNotObject" and "opts = options_or_empty oa"
    and "prop = string_or (property opts) ''elevation''"
    and "gtp = string_or (gridType opts) ''square''"
    and "weight_or_1 (weight opts) = Fin e" and "0 < e"
    and "list_all (\<lambda>f. gtype (geometry f) = ''Point'') pts"
    and "js_truthy cellSize"
    and "\<not> weight_invalid (weight opts)"
    and "bbox lib (Some pts) = Inr box"
    and "make_grid lib gtp box cellSize (OptObject opts) = Inr grid"
    and "\<forall>q\<in>set pts. zValue_of prop q \<noteq> None"
    and "c \<in> set grid" and "p \<in> set pts"
    and "distance lib (gridPoint_of lib gtp c) p opts = Fin 0"
  shows "(\<exists>zw sw. featureEach (accumulate lib opts gtp prop (Fin e) c) (Fin 0, Fin 0) pts
              = Inr (zw, sw) \<and> js_div (rnd lib) zw sw = NaN) \<and>
         interpolate lib (Some pts) cellSize oa = Inl TypeError"
proof -
  obtain st where st: "featureEach (accumulate lib opts gtp prop (Fin e) c) (Fin 0, Fin 0) pts
      = Inr st" "stuck st"
    using loop_coincident[OF assms(7,13,15,16)] by blast
  obtain zw sw where eq: "st = (zw, sw)" by (cases st)
  have q: "js_div (rnd lib) zw sw = NaN" using st(2) unfolding eq by (rule stuck_quotient)
  have part1: "\<exists>zw sw. featureEach (accumulate lib opts gtp prop (Fin e) c) (Fin 0, Fin 0) pts
              = Inr (zw, sw) \<and> js_div (rnd lib) zw sw = NaN"
    using st(1) q unfolding eq by blast
  have this_cell: "interpolate_cell lib opts gtp prop (Fin e) pts c = Inl TypeError"
    using st(1) unfolding eq by (simp add: interpolate_cell_def Let_def q assign_color_of_NaN)
  have vals: "\<And>q. q \<in> set pts \<Longrightarrow> zValue_of prop q \<noteq> None" using assms(13) by blast
  have each: "interpolate_cell lib opts gtp prop (Fin e) pts c' = Inl TypeError \<or>
      (\<exists>y. interpolate_cell lib opts gtp prop (Fin e) pts c' = Inr y)" for c'
  proof -
    obtain s where "featureEach (accumulate lib opts gtp prop (Fin e) c') (Fin 0, Fin 0) pts = Inr s"
      using accumulate_total[OF vals] by blast
    then show ?thesis
      using assign_color_cases by (cases s) (simp add: interpolate_cell_def Let_def)
  qed
  have "featureEach (push_result (interpolate_cell lib opts gtp prop (Fin e) pts)) [] grid
      = Inl TypeError"
    using each assms(14) this_cell by (rule featureEach_push_error)
  then have part2: "interpolate lib (Some pts) cellSize oa = Inl TypeError"
    using interpolate_checked[OF assms(2), of pts cellSize lib box grid] assms(3-6,8-12)
    by simp
  show ?thesis using part1 part2 by simp
qed

text \<open>
  For a cell at the position of a sample of value 5, with a second sample of value 9 at
  distance 1: the loop ends at \<open>(Infinity, Infinity)\<close>, \<open>interpolate\<close> ends in a
  \<open>TypeError\<close>, and \<open>interpolate2\<close> returns the cell with the value \<open>NaN\<close>.
\<close>

theorem coincident_sample_gives_NaN_witness:
  "distance (line_lib binary64 [line_cell 0]) (line_cell 0)
      (line_point 0 [''elevation'' \<mapsto> Fin 5]) (demo_options ''elevation'') = Fin 0 \<and>
   featureEach
      (accumulate (line_lib binary64 [line_cell 0]) (demo_options ''elevation'') ''square''
         ''elevation'' (Fin 1) (line_cell 0))
      (Fin 0, Fin 0)
      [line_point 0 [''elevation'' \<mapsto> Fin 5], line_point 1 [''elevation'' \<mapsto> Fin 9]]
     = Inr (PInf, PInf) \<and>
   js_div binary64 PInf PInf = NaN \<and>
   interpolate (line_lib binary64 [line_cell 0])
      (Some [line_point 0 [''elevation'' \<mapsto> Fin 5], line_point 1 [''elevation'' \<mapsto> Fin 9]])
      (Some (Fin 1)) (OptObject (demo_options ''elevation'')) = Inl TypeError \<and>
   interpolate2 (line_lib binary64 [line_cell 0])
      (Some [line_point 0 [''elevation'' \<mapsto> Fin 5], line_point 1 [''elevation'' \<mapsto> Fin 9]])
      [line_cell 0] (OptObject (demo_options ''elevation''))
     = Inr [set_property (set_property (line_cell 0) ''elevation'' (Some (JNum NaN)))
              ''color'' (Some (JStr ''#cc0000''))]"
proof -
  let ?L = "line_lib binary64 [line_cell 0]"
  let ?O = "demo_options ''elevation''"
  let ?p5 = "line_point 0 [''elevation'' \<mapsto> Fin 5]"
  let ?p9 = "line_point 1 [''elevation'' \<mapsto> Fin 9]"
  have d0: "distance ?L (line_cell 0) ?p5 ?O = Fin 0"
    by (simp add: line_lib_sel line_dist_0_0)
  have s1: "accumulate ?L ?O ''square'' ''elevation'' (Fin 1) (line_cell 0) (Fin 0, Fin 0) ?p5
      = Inr (PInf, PInf)"
    by (simp add: accumulate_def zValue_line_point properties_line_point gridPoint_of_def
        line_lib_sel line_dist_0_0 Let_def js_ops binary64_small)
  have s2: "accumulate ?L ?O ''square'' ''elevation'' (Fin 1) (line_cell 0) (PInf, PInf) ?p9
      = Inr (PInf, PInf)"
    by (simp add: acc_step_1 js_ops binary64_small)
  have t1: "accumulate2 ?L ?O ''square'' ''elevation'' (Fin 1) (line_cell 0) (Fin 0, Fin 0) ?p5
      = Inr (PInf, PInf)"
    by (simp add: accumulate2_def zValue_line_point properties_line_point gridPoint_of_def
        line_lib_sel line_dist_0_0 Let_def js_ops demo_sel binary64_small)
  have t2: "accumulate2 ?L ?O ''square'' ''elevation'' (Fin 1) (line_cell 0) (PInf, PInf) ?p9
      = Inr (PInf, PInf)"
    by (simp add: acc2_step_1 js_ops binary64_small)
  have loop: "featureEach (accumulate ?L ?O ''square'' ''elevation'' (Fin 1) (line_cell 0))
      (Fin 0, Fin 0) [?p5, ?p9] = Inr (PInf, PInf)"
    by (simp add: s1 s2)
  have loop2: "featureEach (accumulate2 ?L ?O ''square'' ''elevation'' (Fin 1) (line_cell 0))
      (Fin 0, Fin 0) [?p5, ?p9] = Inr (PInf, PInf)"
    by (simp add: t1 t2)
  have q: "js_div binary64 PInf PInf = NaN" by (simp add: js_ops)
  have c2: "interpolate2_cell ?L ?O ''square'' ''elevation'' (Fin 1) [?p5, ?p9] (line_cell 0)
      = Inr (set_property (set_property (line_cell 0) ''elevation'' (Some (JNum NaN)))
              ''color'' (Some (JStr ''#cc0000'')))"
    unfolding interpolate2_cell_def loop2
    by (simp add: line_lib_sel q assign_color2_def demo_sel order_interpolate2_def table_get_def
        demo_table_def is_integral_def)
  have h1: "OptObject ?O \<noteq> OptNotObject" by simp
  have h2: "list_all (\<lambda>f. gtype (geometry f) = ''Point'') [?p5, ?p9]"
    by (simp add: gtype_line_point)
  have h3: "\<not> weight_invalid (weight (options_or_empty (OptObject ?O)))"
    by (simp add: demo_sel)
  have h8: "js_truthy (Some (Fin 1))" by simp
  have h9: "bbox ?L (Some [?p5, ?p9]) = Inr [Fin 0, Fin 1]"
    by (simp add: line_lib_sel line_bbox_0_1)
  have g1: "rnd ?L 0 = Fin 0" by (simp add: line_lib_sel binary64_small)
  have g3: "?O = options_or_empty (OptObject ?O)" by simp
  have g4: "''elevation'' = string_or (property ?O) ''elevation''" by (simp add: demo_sel)
  have g5: "''square'' = string_or (gridType ?O) ''square''" by (simp add: demo_sel)
  have g6: "weight_or_1 (weight ?O) = Fin 1" by (simp add: demo_sel)
  have g7: "(0::real) < 1" by simp
  have g10: "\<not> weight_invalid (weight ?O)" by (simp add: demo_sel)
  have g12: "make_grid ?L ''square'' [Fin 0, Fin 1] (Some (Fin 1)) (OptObject ?O)
      = Inr [line_cell 0]"
    by (simp add: make_grid_square line_lib_sel line_grid_0_1)
  have g13: "\<forall>q\<in>set [?p5, ?p9]. zValue_of ''elevation'' q \<noteq> None"
    by (simp add: zValue_line_point)
  have g14: "line_cell 0 \<in> set [line_cell 0]" by simp
  have g15: "?p5 \<in> set [?p5, ?p9]" by simp
  have g16: "distance ?L (gridPoint_of ?L ''square'' (line_cell 0)) ?p5 ?O = Fin 0"
    by (simp add: gridPoint_of_def line_lib_sel line_dist_0_0)
  have a: "interpolate ?L (Some [?p5, ?p9]) (Some (Fin 1)) (OptObject ?O) = Inl TypeError"
    using coincident_sample_gives_NaN[OF g1 h1 g3 g4 g5 g6 g7 h2 h8 g10 h9 g12 g13 g14 g15 g16]
    by simp
  have b: "interpolate2 ?L (Some [?p5, ?p9]) [line_cell 0] (OptObject ?O)
      = Inr [set_property (set_property (line_cell 0) ''elevation'' (Some (JNum NaN)))
              ''color'' (Some (JStr ''#cc0000''))]"
    unfolding interpolate2_checked[OF h1 h2 h3]
    using c2 by (simp add: demo_sel push_result_Inr)
  show ?thesis using d0 loop q a b by simp
qed

section \<open>The grid of genSquareGrid\<close>

text \<open>
  C8, as the code has it. \<open>genSquareGrid\<close> checks nothing itself. When \<open>bbox\<close>
  fails on the collection, it fails with that error; when \<open>bbox\<close> returns a box, its
  result is the result of \<open>squareGrid\<close> on that box with the same cell size and options,
  be it a grid or an error. So it returns a grid exactly when both routines return, and
  what becomes of an empty or absent collection is up to them.
\<close>

theorem genSquareGrid_is_squareGrid_of_bbox:
  "(bbox lib points = Inl e \<longrightarrow> genSquareGrid lib points cellSize oa = Inl e) \<and>
   (bbox lib points = Inr box \<longrightarrow>
      genSquareGrid lib points cellSize oa = squareGrid lib box cellSize oa) \<and>
   (genSquareGrid lib points cellSize oa = Inr grid \<longleftrightarrow>
      (\<exists>b. bbox lib points = Inr b \<and> squareGrid lib b cellSize oa = Inr grid)) \<and>
   (genSquareGrid lib points cellSize oa = Inl e \<longleftrightarrow>
      bbox lib points = Inl e \<or>
      (\<exists>b. bbox lib points = Inr b \<and> squareGrid lib b cellSize oa = Inl e))"
  by (cases "bbox lib points") (simp_all add: genSquareGrid_def)

text \<open>
  On the line: the grid over one sample is the grid of the library, and an absent
  collection fails in \<open>bbox\<close>.
\<close>

theorem genSquareGrid_is_squareGrid_of_bbox_witness:
  "genSquareGrid (line_lib binary64 [line_cell 0]) (Some [line_point 1 Map.empty])
      (Some (Fin 1)) OptAbsent = Inr [line_cell 0] \<and>
   genSquareGrid (line_lib binary64 [line_cell 0]) None (Some (Fin 1)) OptAbsent
      = Inl TypeError"
proof -
  let ?L = "line_lib binary64 [line_cell 0]"
  have b1: "bbox ?L (Some [line_point 1 Map.empty]) = Inr [Fin 1, Fin 1]"
    by (simp add: line_lib_sel line_bbox_single)
  have s1: "squareGrid ?L [Fin 1, Fin 1] (Some (Fin 1)) OptAbsent = Inr [line_cell 0]"
    by (simp add: line_lib_sel line_grid_single)
  have b2: "bbox ?L None = Inl TypeError"
    by (simp add: line_lib_sel line_bbox_def)
  have a: "genSquareGrid ?L (Some [line_point 1 Map.empty]) (Some (Fin 1)) OptAbsent
      = Inr [line_cell 0]"
    using genSquareGrid_is_squareGrid_of_bbox[where lib = ?L
        and points = "Some [line_point 1 Map.empty]" and box = "[Fin 1, Fin 1]"
        and cellSize = "Some (Fin 1)" and oa = OptAbsent] b1 s1
    by simp
  have b: "genSquareGrid ?L None (Some (Fin 1)) OptAbsent = Inl TypeError"
    using genSquareGrid_is_squareGrid_of_bbox[where lib = ?L and points = None
        and e = TypeError and cellSize = "Some (Fin 1)" and oa = OptAbsent] b2
    by simp
  show ?thesis using a b by simp
qed

text \<open>
  C8, as stated, fails for a library that returns on an empty collection: the box of no
  sample is inverted, the grid over it has no cell, and that empty grid is returned.
\<close>

theorem genSquareGrid_empty_counterexample:
  "genSquareGrid (line_lib binary64 [line_cell 0]) (Some []) (Some (Fin 1)) OptAbsent = Inr []"
  by (simp add: genSquareGrid_def line_lib_sel line_bbox_def line_grid_def)

section \<open>The accuracy of binary64\<close>




section \<open>The growth of the rounding error in the two sums\<close>








section \<open>Samples of one value\<close>























end
